theory Spec2Isabelle
  imports Complex_Main "HOL-Library.Sublist"
begin

section \<open>Python values\<close>

text \<open>
  A Python \<open>str\<close> is a sequence of Unicode code points: slicing (\<open>x[:-2]\<close>,
  \<open>abbr[:3]\<close>, \<open>time_str[3:5]\<close>) counts code points, not bytes, so a string is a list
  of code points. The Georgian literals of the source are written as their code points.
\<close>

type_synonym pystr = "int list"

definition ascii :: "string \<Rightarrow> pystr" where
  "ascii s = map of_char s"

text \<open>
  A finite float is modelled by the rational it denotes. Overflow to infinity is modelled
  (\<open>overflow\<close> below); rounding of a finite value to 53 bits and underflow are not.
\<close>

datatype pyfloat = Fin rat | PosInf | NegInf | NaN

record datetime =
  dt_year :: int
  dt_month :: int
  dt_day :: int
  dt_hour :: int
  dt_minute :: int

datatype pyval = PNone | PInt int | PFloat pyfloat | PStr pystr | PDatetime datetime

datatype pyerror = TypeError | ValueError | ZeroDivisionError | OverflowError | KeyError

definition ebind :: "pyerror + 'a \<Rightarrow> ('a \<Rightarrow> pyerror + 'b) \<Rightarrow> pyerror + 'b" where
  "ebind r f = (case r of Inl e \<Rightarrow> Inl e | Inr x \<Rightarrow> f x)"

text \<open>
  What the class gets from outside the file: the exchange rate
  (\<open>get_usd_exchange_rate()\<close>), the year of \<open>datetime.now()\<close>, and two library
  functions that are taken as they are: the text that \<open>str\<close> gives for a finite float,
  and the number that \<open>pd.to_numeric\<close> reads from a text.
\<close>

record env =
  currency_rate :: rat
  now_year :: int
  float_repr :: "rat \<Rightarrow> pystr"
  numeric_text :: "pystr \<Rightarrow> pyval"

section \<open>Strings\<close>

text \<open>The code points for which \<open>str.isspace()\<close> holds: \<open>split()\<close> and \<open>strip()\<close> use them.\<close>

definition py_isspace :: "int \<Rightarrow> bool" where
  "py_isspace c \<longleftrightarrow>
     (9 \<le> c \<and> c \<le> 13) \<or> (28 \<le> c \<and> c \<le> 32) \<or> c = 133 \<or> c = 160 \<or> c = 5760 \<or>
     (8192 \<le> c \<and> c \<le> 8202) \<or> c = 8232 \<or> c = 8233 \<or> c = 8239 \<or> c = 8287 \<or> c = 12288"

definition py_strip :: "pystr \<Rightarrow> pystr" where
  "py_strip s = rev (dropWhile py_isspace (rev (dropWhile py_isspace s)))"

text \<open>\<open>s.split()\<close>: the maximal runs of non-whitespace; \<open>cur\<close> is the run being read, reversed.\<close>

fun split_from :: "pystr \<Rightarrow> pystr \<Rightarrow> pystr list" where
  "split_from cur [] = (if cur = [] then [] else [rev cur])"
| "split_from cur (c # cs) =
     (if py_isspace c then (if cur = [] then split_from [] cs else rev cur # split_from [] cs)
      else split_from (c # cur) cs)"

definition py_split :: "pystr \<Rightarrow> pystr list" where
  "py_split s = split_from [] s"

text \<open>\<open>s.replace(c, '')\<close> for a one-character \<open>c\<close>, and \<open>s.split(c)[0]\<close>.\<close>

definition remove_char :: "int \<Rightarrow> pystr \<Rightarrow> pystr" where
  "remove_char c s = filter (\<lambda>x. x \<noteq> c) s"

definition before_char :: "int \<Rightarrow> pystr \<Rightarrow> pystr" where
  "before_char c s = takeWhile (\<lambda>x. x \<noteq> c) s"

text \<open>\<open>s.lower()\<close> on the ASCII letters; other code points are kept.\<close>

definition py_lower :: "pystr \<Rightarrow> pystr" where
  "py_lower s = map (\<lambda>c. if 65 \<le> c \<and> c \<le> 90 then c + 32 else c) s"

text \<open>\<open>needle in s\<close>.\<close>

fun contains :: "pystr \<Rightarrow> pystr \<Rightarrow> bool" where
  "contains needle [] = (needle = [])"
| "contains needle (c # cs) = (prefix needle (c # cs) \<or> contains needle cs)"

definition endswith :: "pystr \<Rightarrow> pystr \<Rightarrow> bool" where
  "endswith s suf = suffix suf s"

section \<open>Numbers from text: \<open>int(s)\<close> and \<open>float(s)\<close>\<close>

text \<open>
  Only the ASCII digits are digits here (Python also reads the other Unicode decimal
  digits). Before parsing, a code point from 127 on becomes a blank if it is whitespace
  and \<open>?\<close> otherwise; then the blanks of the C locale are stripped at both ends.
\<close>

definition is_digit :: "int \<Rightarrow> bool" where
  "is_digit c \<longleftrightarrow> 48 \<le> c \<and> c \<le> 57"

definition dec_value :: "pystr \<Rightarrow> int" where
  "dec_value ds = foldl (\<lambda>a c. 10 * a + (c - 48)) 0 ds"

definition c_isspace :: "int \<Rightarrow> bool" where
  "c_isspace c \<longleftrightarrow> (9 \<le> c \<and> c \<le> 13) \<or> c = 32"

definition to_ascii :: "pystr \<Rightarrow> pystr" where
  "to_ascii s = map (\<lambda>c. if c < 127 then c else if py_isspace c then 32 else 63) s"

definition num_strip :: "pystr \<Rightarrow> pystr" where
  "num_strip s = rev (dropWhile c_isspace (rev (dropWhile c_isspace (to_ascii s))))"

text \<open>An underscore is allowed only between two digits; \<open>prev\<close> is the character before.\<close>

fun underscores_ok :: "int \<Rightarrow> pystr \<Rightarrow> bool" where
  "underscores_ok prev [] = (prev \<noteq> 95)"
| "underscores_ok prev (c # cs) =
     (if c = 95 then is_digit prev \<and> underscores_ok c cs
      else (prev = 95 \<longrightarrow> is_digit c) \<and> underscores_ok c cs)"

fun split_sign :: "pystr \<Rightarrow> bool \<times> pystr" where
  "split_sign [] = (False, [])"
| "split_sign (c # cs) =
     (if c = 45 then (True, cs) else if c = 43 then (False, cs) else (False, c # cs))"

definition signed_digits :: "pystr \<Rightarrow> int option" where
  "signed_digits s =
     (case split_sign s of (neg, ds) \<Rightarrow>
        if ds \<noteq> [] \<and> list_all is_digit ds
        then Some (if neg then - dec_value ds else dec_value ds)
        else None)"

text \<open>\<open>int(s)\<close> for a text \<open>s\<close>; \<open>None\<close> is \<open>ValueError\<close>.\<close>

definition int_of_text :: "pystr \<Rightarrow> int option" where
  "int_of_text s =
     (let t = num_strip s in
      if underscores_ok 0 t then signed_digits (remove_char 95 t) else None)"

text \<open>A finite value of magnitude \<open>2^1024 - 2^970\<close> or more rounds to infinity.\<close>

definition overflow :: "rat \<Rightarrow> pyfloat" where
  "overflow r =
     (if r \<ge> 2 ^ 1024 - 2 ^ 970 then PosInf
      else if r \<le> - (2 ^ 1024 - 2 ^ 970) then NegInf
      else Fin r)"

definition pow10 :: "int \<Rightarrow> rat" where
  "pow10 e = (if e \<ge> 0 then 10 ^ nat e else 1 / 10 ^ nat (- e))"

definition exponent_part :: "pystr \<Rightarrow> int option" where
  "exponent_part s =
     (case s of [] \<Rightarrow> Some 0
      | c # t \<Rightarrow> if c = 101 \<or> c = 69 then signed_digits t else None)"

definition float_literal :: "pystr \<Rightarrow> rat option" where
  "float_literal s =
     (let ip = takeWhile is_digit s;
          r1 = dropWhile is_digit s;
          fp = (case r1 of [] \<Rightarrow> [] | c # t \<Rightarrow> if c = 46 then takeWhile is_digit t else []);
          r2 = (case r1 of [] \<Rightarrow> [] | c # t \<Rightarrow> if c = 46 then dropWhile is_digit t else r1)
      in if ip = [] \<and> fp = [] then None
         else (case exponent_part r2 of
                 None \<Rightarrow> None
               | Some e \<Rightarrow>
                   Some ((of_int (dec_value ip) + of_int (dec_value fp) / 10 ^ length fp)
                         * pow10 e)))"

definition unsigned_float :: "pystr \<Rightarrow> pyfloat option" where
  "unsigned_float s =
     (if py_lower s = ascii ''inf'' \<or> py_lower s = ascii ''infinity'' then Some PosInf
      else if py_lower s = ascii ''nan'' then Some NaN
      else map_option overflow (float_literal s))"

definition fneg :: "pyfloat \<Rightarrow> pyfloat" where
  "fneg f = (case f of Fin r \<Rightarrow> Fin (- r) | PosInf \<Rightarrow> NegInf | NegInf \<Rightarrow> PosInf | NaN \<Rightarrow> NaN)"

text \<open>\<open>float(s)\<close> for a text \<open>s\<close>; \<open>None\<close> is \<open>ValueError\<close>.\<close>

definition float_of_text :: "pystr \<Rightarrow> pyfloat option" where
  "float_of_text s =
     (let t = num_strip s in
      if underscores_ok 0 t
      then (case split_sign (remove_char 95 t) of (neg, r) \<Rightarrow>
              map_option (\<lambda>f. if neg then fneg f else f) (unsigned_float r))
      else None)"

definition py_float :: "pystr \<Rightarrow> pyerror + pyfloat" where
  "py_float s = (case float_of_text s of None \<Rightarrow> Inl ValueError | Some f \<Rightarrow> Inr f)"

section \<open>Numbers: \<open>int(x)\<close>, \<open>round(x)\<close>, \<open>x * rate\<close>, \<open>str(x)\<close>, \<open>pd.isna(x)\<close>\<close>

text \<open>\<open>int(x)\<close> of a float truncates toward zero.\<close>

definition trunc :: "rat \<Rightarrow> int" where
  "trunc r = (if r \<ge> 0 then \<lfloor>r\<rfloor> else \<lceil>r\<rceil>)"

definition py_int :: "pyval \<Rightarrow> pyerror + int" where
  "py_int v =
     (case v of
        PNone \<Rightarrow> Inl TypeError
      | PInt n \<Rightarrow> Inr n
      | PFloat f \<Rightarrow>
          (case f of Fin r \<Rightarrow> Inr (trunc r) | NaN \<Rightarrow> Inl ValueError | _ \<Rightarrow> Inl OverflowError)
      | PStr s \<Rightarrow> (case int_of_text s of None \<Rightarrow> Inl ValueError | Some n \<Rightarrow> Inr n)
      | PDatetime d \<Rightarrow> Inl TypeError)"

text \<open>\<open>a // b\<close> on integers.\<close>

definition floordiv :: "int \<Rightarrow> int \<Rightarrow> pyerror + int" where
  "floordiv a b = (if b = 0 then Inl ZeroDivisionError else Inr (a div b))"

text \<open>\<open>round(x)\<close> with one argument rounds half to even and returns an integer.\<close>

definition round_half_even :: "rat \<Rightarrow> int" where
  "round_half_even r =
     (let f = \<lfloor>r\<rfloor>; d = r - of_int f in
      if d < 1 / 2 then f else if d > 1 / 2 then f + 1 else if even f then f else f + 1)"

definition py_round :: "pyfloat \<Rightarrow> pyerror + int" where
  "py_round f =
     (case f of Fin r \<Rightarrow> Inr (round_half_even r) | NaN \<Rightarrow> Inl ValueError | _ \<Rightarrow> Inl OverflowError)"

text \<open>\<open>x * rate\<close> for a float \<open>x\<close> and the finite rate.\<close>

definition fmul :: "pyfloat \<Rightarrow> rat \<Rightarrow> pyfloat" where
  "fmul f r =
     (case f of
        Fin a \<Rightarrow> overflow (a * r)
      | PosInf \<Rightarrow> if r > 0 then PosInf else if r < 0 then NegInf else NaN
      | NegInf \<Rightarrow> if r > 0 then NegInf else if r < 0 then PosInf else NaN
      | NaN \<Rightarrow> NaN)"

fun digits_of_nat :: "nat \<Rightarrow> pystr" where
  "digits_of_nat n =
     (if n < 10 then [48 + int n] else digits_of_nat (n div 10) @ [48 + int (n mod 10)])"

declare digits_of_nat.simps [simp del]

definition str_of_int :: "int \<Rightarrow> pystr" where
  "str_of_int i = (if i < 0 then 45 # digits_of_nat (nat (- i)) else digits_of_nat (nat i))"

definition pad2 :: "int \<Rightarrow> pystr" where
  "pad2 i = (if i < 10 then 48 # str_of_int i else str_of_int i)"

definition pad4 :: "int \<Rightarrow> pystr" where
  "pad4 i = replicate (4 - length (str_of_int i)) 48 @ str_of_int i"

definition py_str :: "env \<Rightarrow> pyval \<Rightarrow> pystr" where
  "py_str E v =
     (case v of
        PNone \<Rightarrow> ascii ''None''
      | PInt n \<Rightarrow> str_of_int n
      | PFloat f \<Rightarrow>
          (case f of Fin r \<Rightarrow> float_repr E r | PosInf \<Rightarrow> ascii ''inf''
           | NegInf \<Rightarrow> ascii ''-inf'' | NaN \<Rightarrow> ascii ''nan'')
      | PStr s \<Rightarrow> s
      | PDatetime d \<Rightarrow>
          pad4 (dt_year d) @ [45] @ pad2 (dt_month d) @ [45] @ pad2 (dt_day d) @ [32] @
          pad2 (dt_hour d) @ [58] @ pad2 (dt_minute d) @ ascii '':00'')"

definition is_na :: "pyval \<Rightarrow> bool" where
  "is_na v \<longleftrightarrow> v = PNone \<or> v = PFloat NaN"

definition is_number :: "pyval \<Rightarrow> bool" where
  "is_number v = (case v of PInt n \<Rightarrow> True | PFloat f \<Rightarrow> True | _ \<Rightarrow> False)"

section \<open>The table\<close>

text \<open>
  A data frame is a number of rows and, for each column name, the list of that column's
  values in row order. \<open>df[c]\<close> raises \<open>KeyError\<close> for a column that is not there;
  \<open>df[c] = col\<close> overwrites or adds a column.
\<close>

record dataframe =
  nrows :: nat
  columns :: "string \<rightharpoonup> pyval list"

definition wf_df :: "dataframe \<Rightarrow> bool" where
  "wf_df df \<longleftrightarrow> (\<forall>c col. columns df c = Some col \<longrightarrow> length col = nrows df)"

definition get_column :: "dataframe \<Rightarrow> string \<Rightarrow> pyerror + pyval list" where
  "get_column df c = (case columns df c of None \<Rightarrow> Inl KeyError | Some col \<Rightarrow> Inr col)"

definition set_column :: "dataframe \<Rightarrow> string \<Rightarrow> pyval list \<Rightarrow> dataframe" where
  "set_column df c col = df\<lparr>columns := (columns df)(c \<mapsto> col)\<rparr>"

type_synonym row = "string \<rightharpoonup> pyval"

definition row_at :: "dataframe \<Rightarrow> nat \<Rightarrow> row" where
  "row_at df i = (\<lambda>c. map_option (\<lambda>col. col ! i) (columns df c))"

definition rows :: "dataframe \<Rightarrow> row list" where
  "rows df = map (row_at df) [0..<nrows df]"

definition get_item :: "row \<Rightarrow> string \<Rightarrow> pyerror + pyval" where
  "get_item r c = (case r c of None \<Rightarrow> Inl KeyError | Some v \<Rightarrow> Inr v)"

text \<open>\<open>apply\<close> calls the function on each value in turn; the first exception ends it.\<close>

fun traverse :: "('a \<Rightarrow> pyerror + 'b) \<Rightarrow> 'a list \<Rightarrow> pyerror + 'b list" where
  "traverse f [] = Inr []"
| "traverse f (x # xs) =
     (case f x of
        Inl e \<Rightarrow> Inl e
      | Inr y \<Rightarrow> (case traverse f xs of Inl e \<Rightarrow> Inl e | Inr ys \<Rightarrow> Inr (y # ys)))"

text \<open>
  The results of \<open>apply\<close> become a column: when at least one of them is a number, the
  column is numeric and each \<open>None\<close> in it is \<open>NaN\<close>. (An integer and the float of the
  same value are not told apart by any step, so the column's change to floats is left out.)
\<close>

definition convert_result :: "pyval list \<Rightarrow> pyval list" where
  "convert_result res =
     (if list_ex is_number res \<and> list_all (\<lambda>v. is_number v \<or> v = PNone) res
      then map (\<lambda>v. if v = PNone then PFloat NaN else v) res
      else res)"

section \<open>\<open>__clean_area_m2\<close>\<close>

definition unit_suffix :: pystr where
  "unit_suffix = [4315, 178]"

definition strip_unit :: "pyval \<Rightarrow> pyval" where
  "strip_unit x =
     (case x of
        PStr s \<Rightarrow> if endswith s unit_suffix then PStr (take (length s - 2) s) else x
      | _ \<Rightarrow> x)"

text \<open>\<open>pd.to_numeric(..., errors='coerce')\<close> on one value.\<close>

definition to_numeric :: "env \<Rightarrow> pyval \<Rightarrow> pyval" where
  "to_numeric E v =
     (case v of
        PInt n \<Rightarrow> PInt n
      | PFloat f \<Rightarrow> PFloat f
      | PStr s \<Rightarrow> if is_number (numeric_text E s) then numeric_text E s else PFloat NaN
      | _ \<Rightarrow> PFloat NaN)"

definition clean_area_m2 :: "env \<Rightarrow> dataframe \<Rightarrow> pyerror + dataframe" where
  "clean_area_m2 E df =
     ebind (get_column df ''area_m2'') (\<lambda>col.
       let df1 = set_column df ''area_m2'' (map strip_unit col) in
       ebind (get_column df1 ''area_m2'') (\<lambda>col1.
         Inr (set_column df1 ''area_m2'' (map (to_numeric E) col1))))"

section \<open>\<open>__clean_and_transform_price\<close>\<close>

text \<open>The local \<open>price_str\<close>: \<open>str(price).replace(',', '').strip().lower()\<close>.\<close>

definition price_str :: "env \<Rightarrow> pyval \<Rightarrow> pystr" where
  "price_str E price = py_lower (py_strip (remove_char 44 (py_str E price)))"

definition parse_price :: "env \<Rightarrow> pyval \<Rightarrow> pyerror + pyval" where
  "parse_price E price =
     (case (if 36 \<in> set (price_str E price)
            then ebind (py_float (py_strip (remove_char 36 (price_str E price))))
                   (\<lambda>f. Inr (PFloat f))
            else ebind (py_float (price_str E price)) (\<lambda>f.
                   ebind (py_round (fmul f (currency_rate E))) (\<lambda>n. Inr (PInt n))))
      of Inl e \<Rightarrow> if e = ValueError then Inr PNone else Inl e
       | Inr v \<Rightarrow> Inr v)"

definition clean_and_transform_price :: "env \<Rightarrow> dataframe \<Rightarrow> pyerror + dataframe" where
  "clean_and_transform_price E df =
     ebind (get_column df ''price'') (\<lambda>col.
       ebind (traverse (parse_price E) col) (\<lambda>res.
         Inr (set_column df ''price'' (convert_result res))))"

section \<open>\<open>__clean_price_per_sqm\<close>\<close>

definition clean_row :: "env \<Rightarrow> row \<Rightarrow> pyerror + pyval" where
  "clean_row E r =
     ebind (get_item r ''price_per_sqm'') (\<lambda>pps.
       if is_na pps then
         (case ebind (get_item r ''price'') (\<lambda>p.
                 ebind (py_int p) (\<lambda>a.
                   ebind (get_item r ''area_m2'') (\<lambda>ar.
                     ebind (py_int ar) (\<lambda>b.
                       ebind (floordiv a b) (\<lambda>q. Inr (PInt q))))))
          of Inl e \<Rightarrow> if e = TypeError \<or> e = ZeroDivisionError then Inr PNone else Inl e
           | Inr v \<Rightarrow> Inr v)
       else
         (let value0 = py_strip (py_str E pps);
              value = (if 47 \<in> set value0 then py_strip (before_char 47 value0) else value0)
          in if 36 \<in> set value
             then ebind (py_float (py_strip (remove_char 44 (remove_char 36 value))))
                    (\<lambda>f. Inr (PFloat f))
             else ebind (py_float (py_strip (remove_char 44 value))) (\<lambda>f.
                    ebind (py_round (fmul f (currency_rate E))) (\<lambda>n. Inr (PInt n)))))"

definition clean_price_per_sqm :: "env \<Rightarrow> dataframe \<Rightarrow> pyerror + dataframe" where
  "clean_price_per_sqm E df =
     ebind (traverse (clean_row E) (rows df)) (\<lambda>res.
       Inr (set_column df ''price_per_sqm'' (convert_result res)))"

section \<open>\<open>__fill_district_name_nulls\<close>\<close>

definition not_provided :: pystr where
  "not_provided =
     [4304, 4320, 32, 4304, 4320, 4312, 4321, 32,
      4315, 4317, 4332, 4317, 4307, 4308, 4305, 4323, 4314, 4312]"

definition fillna :: "pyval \<Rightarrow> pyval list \<Rightarrow> pyval list" where
  "fillna v col = map (\<lambda>x. if is_na x then v else x) col"

definition fill_district_name_nulls :: "dataframe \<Rightarrow> pyerror + dataframe" where
  "fill_district_name_nulls df =
     ebind (get_column df ''district_name'') (\<lambda>col.
       Inr (set_column df ''district_name'' (fillna (PStr not_provided) col)))"

section \<open>\<open>__transform_upload_date\<close>\<close>

definition geo_months :: "pystr \<rightharpoonup> int" where
  "geo_months = map_of
     [([4312, 4304, 4316], 1), ([4311, 4308, 4305], 2), ([4315, 4304, 4320], 3),
      ([4304, 4318, 4320], 4), ([4315, 4304, 4312], 5), ([4312, 4309, 4316], 6),
      ([4312, 4309, 4314], 7), ([4304, 4306, 4309], 8), ([4321, 4308, 4325], 9),
      ([4317, 4325, 4322], 10), ([4316, 4317, 4308], 11), ([4307, 4308, 4313], 12)]"

definition is_leap :: "int \<Rightarrow> bool" where
  "is_leap y \<longleftrightarrow> y mod 4 = 0 \<and> (y mod 100 \<noteq> 0 \<or> y mod 400 = 0)"

definition days_in_month :: "int \<Rightarrow> int \<Rightarrow> int" where
  "days_in_month y m =
     (if m = 2 then (if is_leap y then 29 else 28)
      else if m = 4 \<or> m = 6 \<or> m = 9 \<or> m = 11 then 30 else 31)"

text \<open>
  \<open>datetime(year, month, day, hour, minute)\<close> checks its fields and raises otherwise
  (\<open>ValueError\<close>, or \<open>OverflowError\<close> for a number that is too long; the caller treats
  both alike).
\<close>

definition datetime_new :: "int \<Rightarrow> int \<Rightarrow> int \<Rightarrow> int \<Rightarrow> int \<Rightarrow> pyerror + datetime" where
  "datetime_new y m d h mi =
     (if 1 \<le> y \<and> y \<le> 9999 \<and> 1 \<le> m \<and> m \<le> 12 \<and> 1 \<le> d \<and> d \<le> days_in_month y m \<and>
         0 \<le> h \<and> h \<le> 23 \<and> 0 \<le> mi \<and> mi \<le> 59
      then Inr \<lparr>dt_year = y, dt_month = m, dt_day = d, dt_hour = h, dt_minute = mi\<rparr>
      else Inl ValueError)"

definition int_text :: "pystr \<Rightarrow> pyerror + int" where
  "int_text s = py_int (PStr s)"

text \<open>The body of the \<open>try\<close>.\<close>

definition parse_date_try :: "env \<Rightarrow> pystr \<Rightarrow> pyerror + pyval" where
  "parse_date_try E upload_str =
     (let parts = py_split upload_str in
      if length parts \<noteq> 3 then Inr PNone
      else (case parts of
              [day, geo_month_abbr, time_str] \<Rightarrow>
                (case geo_months (take 3 geo_month_abbr) of
                   None \<Rightarrow> Inr PNone
                 | Some month \<Rightarrow>
                     if month = 0 then Inr PNone
                     else ebind (int_text day) (\<lambda>d.
                            ebind (int_text (take 2 time_str)) (\<lambda>h.
                              ebind (int_text (take 2 (drop 3 time_str))) (\<lambda>mi.
                                ebind (datetime_new (now_year E) month d h mi) (\<lambda>dt.
                                  Inr (PDatetime dt))))))
            | _ \<Rightarrow> Inr PNone))"

text \<open>The bare \<open>except\<close> turns every exception into \<open>None\<close>.\<close>

definition parse_date :: "env \<Rightarrow> pystr \<Rightarrow> pyval" where
  "parse_date E upload_str = (case parse_date_try E upload_str of Inl e \<Rightarrow> PNone | Inr v \<Rightarrow> v)"

definition transform_upload_date :: "env \<Rightarrow> dataframe \<Rightarrow> pyerror + dataframe" where
  "transform_upload_date E df =
     ebind (get_column df ''upload_date'') (\<lambda>col.
       let df1 = set_column df ''upload_date'' (map (\<lambda>v. PStr (py_str E v)) col) in
       ebind (get_column df1 ''upload_date'') (\<lambda>col1.
         Inr (set_column df1 ''upload_date''
                (map (\<lambda>v. case v of PStr s \<Rightarrow> parse_date E s | _ \<Rightarrow> PNone) col1))))"

section \<open>\<open>__new_transaction_type_col\<close>\<close>

definition for_sale :: pystr where
  "for_sale = [4312, 4327, 4312, 4307, 4308, 4305, 4304]"

definition pledge :: pystr where
  "pledge = [4306, 4312, 4320, 4304, 4309, 4307, 4308, 4305, 4304]"

definition rent_daily :: pystr where
  "rent_daily =
     [4325, 4312, 4320, 4304, 4309, 4307, 4308, 4305, 4304, 32,
      4307, 4326, 4312, 4323, 4320, 4304, 4307]"

definition rent :: pystr where
  "rent = [4325, 4312, 4320, 4304, 4309, 4307, 4308, 4305, 4304]"

definition rent_monthly :: pystr where
  "rent_monthly =
     [4325, 4312, 4320, 4304, 4309, 4307, 4308, 4305, 4304, 32,
      4311, 4309, 4312, 4323, 4320, 4304, 4307]"

definition extract_transaction_type :: "pyval \<Rightarrow> pyval" where
  "extract_transaction_type desc =
     (case desc of
        PStr s \<Rightarrow>
          (let d = py_strip s in
           if contains for_sale d then PStr for_sale
           else if contains pledge d then PStr pledge
           else if contains rent_daily d then PStr rent_daily
           else if contains rent d then PStr rent_monthly
           else PNone)
      | _ \<Rightarrow> PNone)"

definition new_transaction_type_col :: "dataframe \<Rightarrow> pyerror + dataframe" where
  "new_transaction_type_col df =
     ebind (get_column df ''description'') (\<lambda>col.
       Inr (set_column df ''transaction_type'' (map extract_transaction_type col)))"

section \<open>\<open>main\<close>\<close>

text \<open>The printing of shape, info, description and null counts reads the table only.\<close>

definition main :: "env \<Rightarrow> dataframe \<Rightarrow> pyerror + dataframe" where
  "main E df =
     ebind (clean_and_transform_price E df) (\<lambda>df1.
       ebind (clean_area_m2 E df1) (\<lambda>df2.
         ebind (clean_price_per_sqm E df2) (\<lambda>df3.
           ebind (transform_upload_date E df3) (\<lambda>df4.
             ebind (new_transaction_type_col df4) (\<lambda>df5.
               fill_district_name_nulls df5)))))"

section \<open>Example inputs\<close>

text \<open>
  An environment for the concrete runs below: a rate of one half, the year 2026, a float
  rendering that is right for the whole-valued floats, and \<open>float\<close>'s reading of a text
  for \<open>pd.to_numeric\<close>.
\<close>

definition example_env :: env where
  "example_env =
     \<lparr>currency_rate = 1 / 2, now_year = 2026,
      float_repr = (\<lambda>r. str_of_int \<lfloor>r\<rfloor> @ ascii ''.0''),
      numeric_text = (\<lambda>s. case float_of_text s of None \<Rightarrow> PNone | Some f \<Rightarrow> PFloat f)\<rparr>"

definition districts :: dataframe where
  "districts =
     \<lparr>nrows = 3,
      columns = [''district_name'' \<mapsto> [PStr (ascii ''Vake''), PNone, PFloat NaN]]\<rparr>"

text \<open>What the two statements of \<open>__clean_area_m2\<close> do to one value.\<close>

definition area_value :: "env \<Rightarrow> pyval \<Rightarrow> pyval" where
  "area_value E x = to_numeric E (strip_unit x)"

definition areas :: dataframe where
  "areas =
     \<lparr>nrows = 4,
      columns = [''area_m2'' \<mapsto>
        [PStr (ascii ''50'' @ unit_suffix), PInt 70, PStr (ascii ''abc''), PStr (ascii ''65.5'')]]\<rparr>"



definition row_whole_area :: row where
  "row_whole_area =
     [''price_per_sqm'' \<mapsto> PFloat NaN, ''price'' \<mapsto> PFloat (Fin 100000),
      ''area_m2'' \<mapsto> PFloat (Fin 50)]"

definition row_half_area :: row where
  "row_half_area =
     [''price_per_sqm'' \<mapsto> PFloat NaN, ''price'' \<mapsto> PFloat (Fin 100000),
      ''area_m2'' \<mapsto> PFloat (Fin (101 / 2))]"

definition row_nan_area :: row where
  "row_nan_area =
     [''price_per_sqm'' \<mapsto> PFloat NaN, ''price'' \<mapsto> PFloat (Fin 100000),
      ''area_m2'' \<mapsto> PFloat NaN]"

definition row_negotiable :: row where
  "row_negotiable =
     [''price_per_sqm'' \<mapsto> PStr (ascii ''negotiable''), ''price'' \<mapsto> PFloat (Fin 100000),
      ''area_m2'' \<mapsto> PFloat (Fin 50)]"


definition listing_negotiable :: dataframe where
  "listing_negotiable =
     \<lparr>nrows = 1,
      columns = [''price_per_sqm'' \<mapsto> [PStr (ascii ''negotiable'')],
                 ''price'' \<mapsto> [PFloat (Fin 100000)], ''area_m2'' \<mapsto> [PFloat (Fin 50)]]\<rparr>"

text \<open>A description: the daily-rental marker after a blank, then a blank and a word.\<close>

definition daily_flat :: pystr where
  "daily_flat = 32 # rent_daily @ [32, 4305, 4312, 4316, 4304]"

text \<open>Upload dates: day 15, the month \<open>[4315, 4304, 4320]\<close> (March), and a time.\<close>

definition date_ok :: pystr where
  "date_ok = ascii ''15 '' @ [4315, 4304, 4320] @ ascii '' 14:30''"

definition date_two_tokens :: pystr where
  "date_two_tokens = ascii ''15 '' @ [4315, 4304, 4320]"

definition date_day45 :: pystr where
  "date_day45 = ascii ''45 '' @ [4315, 4304, 4320] @ ascii '' 14:30''"

definition date_x :: pystr where
  "date_x = ascii ''15 '' @ [4315, 4304, 4320] @ ascii '' 14x30''"

definition date_99 :: pystr where
  "date_99 = ascii ''15 '' @ [4315, 4304, 4320] @ ascii '' 99x99''"

text \<open>
  A table of two listings, and what each step of \<open>main\<close> makes of it at the example
  environment.
\<close>

definition listing :: dataframe where
  "listing =
     \<lparr>nrows = 2,
      columns =
        [''area_m2'' \<mapsto> [PStr (ascii ''50'' @ unit_suffix), PStr (ascii ''65.5'')],
         ''price'' \<mapsto> [PStr (ascii ''100,000 $''), PStr (ascii ''1,001'')],
         ''price_per_sqm'' \<mapsto> [PStr (ascii ''2,000 $''), PFloat NaN],
         ''upload_date'' \<mapsto> [PStr date_ok, PStr date_two_tokens],
         ''description'' \<mapsto> [PStr daily_flat, PFloat NaN],
         ''district_name'' \<mapsto> [PStr (ascii ''Vake''), PFloat NaN]]\<rparr>"

definition listing1 :: dataframe where
  "listing1 = set_column listing ''price'' [PFloat (Fin 100000), PInt 500]"

definition listing2 :: dataframe where
  "listing2 = set_column listing1 ''area_m2'' [PFloat (Fin 50), PFloat (Fin (131 / 2))]"

definition listing3 :: dataframe where
  "listing3 = set_column listing2 ''price_per_sqm'' [PFloat (Fin 2000), PInt 7]"

definition listing4 :: dataframe where
  "listing4 =
     set_column listing3 ''upload_date''
       [PDatetime \<lparr>dt_year = 2026, dt_month = 3, dt_day = 15, dt_hour = 14, dt_minute = 30\<rparr>,
        PNone]"

definition listing5 :: dataframe where
  "listing5 = set_column listing4 ''transaction_type'' [PStr rent_daily, PNone]"

definition listing_cleaned :: dataframe where
  "listing_cleaned =
     set_column listing5 ''district_name'' [PStr (ascii ''Vake''), PStr not_provided]"

text \<open>
  The same table with a price that is not a number in its second row, after the price
  step and after the area step.
\<close>

definition listing_unpriced :: dataframe where
  "listing_unpriced =
     \<lparr>nrows = 2,
      columns =
        [''area_m2'' \<mapsto> [PStr (ascii ''50'' @ unit_suffix), PStr (ascii ''65.5'')],
         ''price'' \<mapsto> [PStr (ascii ''100,000 $''), PStr (ascii ''negotiable'')],
         ''price_per_sqm'' \<mapsto> [PStr (ascii ''2,000 $''), PFloat NaN],
         ''upload_date'' \<mapsto> [PStr date_ok, PStr date_two_tokens],
         ''description'' \<mapsto> [PStr daily_flat, PFloat NaN],
         ''district_name'' \<mapsto> [PStr (ascii ''Vake''), PFloat NaN]]\<rparr>"

definition unpriced1 :: dataframe where
  "unpriced1 = set_column listing_unpriced ''price'' [PFloat (Fin 100000), PFloat NaN]"

definition unpriced2 :: dataframe where
  "unpriced2 = set_column unpriced1 ''area_m2'' [PFloat (Fin 50), PFloat (Fin (131 / 2))]"

section \<open>Properties of tables\<close>

text \<open>
  \<open>same_but cs df df'\<close>: \<open>df'\<close> has as many rows as \<open>df\<close>, its columns have that many
  values when those of \<open>df\<close> have, and outside the columns \<open>cs\<close> the two tables hold the
  same values at the same places.
\<close>

definition same_but :: "string set \<Rightarrow> dataframe \<Rightarrow> dataframe \<Rightarrow> bool" where
  "same_but cs df df' \<longleftrightarrow>
     nrows df' = nrows df \<and> (wf_df df \<longrightarrow> wf_df df') \<and>
     (\<forall>c. c \<notin> cs \<longrightarrow> columns df' c = columns df c)"


section \<open>Basic facts\<close>

lemma ebind_Inl [simp]: "ebind (Inl e) f = Inl e"
  by (simp add: ebind_def)

lemma ebind_Inr [simp]: "ebind (Inr x) f = f x"
  by (simp add: ebind_def)

lemmas text_eval =
  py_strip_def py_isspace_def remove_char_def before_char_def py_lower_def ascii_def
  num_strip_def to_ascii_def c_isspace_def is_digit_def dec_value_def signed_digits_def
  int_of_text_def float_of_text_def unsigned_float_def float_literal_def exponent_part_def
  pow10_def overflow_def fneg_def py_float_def

lemmas value_eval =
  py_str_def py_int_def trunc_def floordiv_def round_half_even_def py_round_def fmul_def
  is_na_def get_item_def price_str_def

lemma floor_numeral_div: "\<lfloor>(numeral a :: rat) / numeral b\<rfloor> = numeral a div numeral b"
  by (metis floor_divide_of_int_eq of_int_numeral)

lemma set_column_twice: "set_column (set_column df c x) c y = set_column df c y"
  by (simp add: set_column_def)


lemma columns_set_column:
  "columns (set_column df c col) c' = (if c' = c then Some col else columns df c')"
  by (simp add: set_column_def)

lemma nrows_set_column: "nrows (set_column df c col) = nrows df"
  by (simp add: set_column_def)

section \<open>The district-name filler\<close>

lemma fillna_not_na: "\<not> is_na v \<Longrightarrow> x \<in> set (fillna v col) \<Longrightarrow> \<not> is_na x"
  by (auto simp: fillna_def)

text \<open>
  C7. After \<open>__fill_district_name_nulls\<close> the \<open>district_name\<close> column has as many values
  as before and none of them is missing: each value that was missing is the fixed text,
  and every other value is the one that was there.
\<close>

theorem district_name_filled:
  assumes "columns df ''district_name'' = Some col"
  shows "\<exists>df' col'. fill_district_name_nulls df = Inr df' \<and>
           columns df' ''district_name'' = Some col' \<and>
           length col' = length col \<and>
           (\<forall>v \<in> set col'. \<not> is_na v) \<and>
           (\<forall>i < length col.
              col' ! i = (if is_na (col ! i) then PStr not_provided else col ! i))"
proof -
  let ?col' = "fillna (PStr not_provided) col"
  have run: "fill_district_name_nulls df = Inr (set_column df ''district_name'' ?col')"
    using assms by (simp add: fill_district_name_nulls_def get_column_def)
  have "\<not> is_na (PStr not_provided)"
    by (simp add: is_na_def)
  then have none: "\<forall>v \<in> set ?col'. \<not> is_na v"
    using fillna_not_na by blast
  have same: "\<forall>i < length col.
      ?col' ! i = (if is_na (col ! i) then PStr not_provided else col ! i)"
    by (simp add: fillna_def)
  have col: "columns (set_column df ''district_name'' ?col') ''district_name'' = Some ?col'"
    by (simp add: set_column_def)
  have len: "length ?col' = length col"
    by (simp add: fillna_def)
  show ?thesis
    by (rule exI [of _ "set_column df ''district_name'' ?col'"], rule exI [of _ ?col'])
       (intro conjI run col len none same)
qed

theorem district_name_filled_witness:
  "columns districts ''district_name'' = Some [PStr (ascii ''Vake''), PNone, PFloat NaN] \<and>
   (\<exists>df' col'. fill_district_name_nulls districts = Inr df' \<and>
      columns df' ''district_name'' = Some col' \<and> length col' = 3 \<and>
      col' ! 0 = PStr (ascii ''Vake'') \<and> col' ! 1 = PStr not_provided \<and>
      col' ! 2 = PStr not_provided)"
proof -
  have c: "columns districts ''district_name'' = Some [PStr (ascii ''Vake''), PNone, PFloat NaN]"
    by (simp add: districts_def)
  from district_name_filled [OF c] obtain df' col' where
    r: "fill_district_name_nulls districts = Inr df'" and
    k: "columns df' ''district_name'' = Some col'" and
    l: "length col' = 3" and
    e: "\<forall>i < 3. col' ! i =
          (if is_na ([PStr (ascii ''Vake''), PNone, PFloat NaN] ! i) then PStr not_provided
           else [PStr (ascii ''Vake''), PNone, PFloat NaN] ! i)"
    by auto
  have n: "col' ! 0 = PStr (ascii ''Vake'')" "col' ! 1 = PStr not_provided"
      "col' ! 2 = PStr not_provided"
    using e by (simp_all add: is_na_def)
  have "\<exists>df' col'. fill_district_name_nulls districts = Inr df' \<and>
      columns df' ''district_name'' = Some col' \<and> length col' = 3 \<and>
      col' ! 0 = PStr (ascii ''Vake'') \<and> col' ! 1 = PStr not_provided \<and>
      col' ! 2 = PStr not_provided"
    by (rule exI [of _ df'], rule exI [of _ col']) (intro conjI r k l n)
  with c show ?thesis by (rule conjI)
qed

section \<open>The area step\<close>

lemma clean_area_m2_run:
  assumes "columns df ''area_m2'' = Some col"
  shows "clean_area_m2 E df = Inr (set_column df ''area_m2'' (map (area_value E) col))"
proof -
  have "area_value E = (\<lambda>x. to_numeric E (strip_unit x))"
    by (rule ext) (simp add: area_value_def)
  then show ?thesis
    using assms
    by (simp add: clean_area_m2_def get_column_def columns_set_column set_column_twice Let_def
        comp_def)
qed

lemma strip_unit_suffix: "strip_unit (PStr (n @ unit_suffix)) = PStr n"
  by (simp add: strip_unit_def endswith_def unit_suffix_def suffix_def)

lemma strip_unit_other: "\<not> endswith s unit_suffix \<Longrightarrow> strip_unit (PStr s) = PStr s"
  by (simp add: strip_unit_def)

lemma strip_unit_number: "is_number x \<Longrightarrow> strip_unit x = x"
  by (cases x) (simp_all add: strip_unit_def is_number_def)

lemma to_numeric_number: "is_number x \<Longrightarrow> to_numeric E x = x"
  by (cases x) (simp_all add: to_numeric_def is_number_def)

lemma to_numeric_text:
  "to_numeric E (PStr s) = (if is_number (numeric_text E s) then numeric_text E s else PFloat NaN)"
  by (simp add: to_numeric_def)

lemma area_value_number: "is_number x \<Longrightarrow> area_value E x = x"
  by (simp add: area_value_def strip_unit_number to_numeric_number)

lemma area_value_missing:
  assumes "\<not> is_number x"
    and "\<forall>s. x = PStr s \<longrightarrow>
        \<not> is_number (numeric_text E (if endswith s unit_suffix then take (length s - 2) s else s))"
  shows "area_value E x = PFloat NaN"
proof (cases x)
  case (PStr s)
  with assms(2) show ?thesis
    by (cases "endswith s unit_suffix") (simp_all add: area_value_def strip_unit_def to_numeric_def)
qed (use assms(1) in \<open>simp_all add: area_value_def strip_unit_def to_numeric_def is_number_def\<close>)

lemma area_value_cases:
  "(\<forall>n. x = PStr (n @ unit_suffix) \<longrightarrow> is_number (numeric_text E n) \<longrightarrow>
        area_value E x = numeric_text E n) \<and>
   (is_number x \<longrightarrow> area_value E x = x) \<and>
   (\<forall>s. x = PStr s \<longrightarrow> \<not> endswith s unit_suffix \<longrightarrow> is_number (numeric_text E s) \<longrightarrow>
        area_value E x = numeric_text E s) \<and>
   (\<not> is_number x \<longrightarrow>
    (\<forall>s. x = PStr s \<longrightarrow>
        \<not> is_number (numeric_text E (if endswith s unit_suffix then take (length s - 2) s else s))) \<longrightarrow>
    area_value E x = PFloat NaN)"
  apply (intro conjI allI impI)
     apply (simp add: area_value_def strip_unit_suffix to_numeric_text)
    apply (simp add: area_value_number)
   apply (simp add: area_value_def strip_unit_other to_numeric_text)
  apply (erule (1) area_value_missing)
  done

text \<open>
  C8. \<open>__clean_area_m2\<close> replaces each value of the \<open>area_m2\<close> column by: the number read
  from the text before the unit suffix, when the value is a text that ends in the suffix
  and that text reads as a number; the value itself, when it is a number; the number read
  from the text, when it is a text without the suffix that reads as a number; and \<open>NaN\<close>
  (missing) in every other case.
\<close>

theorem area_values:
  assumes "columns df ''area_m2'' = Some col"
  shows "clean_area_m2 E df = Inr (set_column df ''area_m2'' (map (area_value E) col)) \<and>
         (\<forall>x. (\<forall>n. x = PStr (n @ unit_suffix) \<longrightarrow> is_number (numeric_text E n) \<longrightarrow>
                   area_value E x = numeric_text E n) \<and>
              (is_number x \<longrightarrow> area_value E x = x) \<and>
              (\<forall>s. x = PStr s \<longrightarrow> \<not> endswith s unit_suffix \<longrightarrow>
                   is_number (numeric_text E s) \<longrightarrow> area_value E x = numeric_text E s) \<and>
              (\<not> is_number x \<longrightarrow>
               (\<forall>s. x = PStr s \<longrightarrow>
                   \<not> is_number (numeric_text E
                       (if endswith s unit_suffix then take (length s - 2) s else s))) \<longrightarrow>
               area_value E x = PFloat NaN))"
  using clean_area_m2_run [OF assms] area_value_cases by (intro conjI allI) blast+

lemma example_numeric_text:
  "numeric_text example_env s = (case float_of_text s of None \<Rightarrow> PNone | Some f \<Rightarrow> PFloat f)"
  by (simp add: example_env_def)

theorem area_values_witness:
  "columns areas ''area_m2'' =
     Some [PStr (ascii ''50'' @ unit_suffix), PInt 70, PStr (ascii ''abc''), PStr (ascii ''65.5'')] \<and>
   clean_area_m2 example_env areas =
     Inr (set_column areas ''area_m2''
            [PFloat (Fin 50), PInt 70, PFloat NaN, PFloat (Fin (131 / 2))])"
proof -
  let ?col = "[PStr (ascii ''50'' @ unit_suffix), PInt 70, PStr (ascii ''abc''), PStr (ascii ''65.5'')]"
  have c: "columns areas ''area_m2'' = Some ?col"
    by (simp add: areas_def)
  have t0: "numeric_text example_env (ascii ''50'') = PFloat (Fin 50)"
    by (simp add: example_numeric_text text_eval)
  have t2: "numeric_text example_env (ascii ''abc'') = PNone"
    by (simp add: example_numeric_text text_eval)
  have t3: "numeric_text example_env (ascii ''65.5'') = PFloat (Fin (131 / 2))"
    by (simp add: example_numeric_text text_eval)
  have e2: "\<not> endswith (ascii ''abc'') unit_suffix"
    by (simp add: endswith_def unit_suffix_def ascii_def suffix_def Cons_eq_append_conv)
  have e3: "\<not> endswith (ascii ''65.5'') unit_suffix"
    by (simp add: endswith_def unit_suffix_def ascii_def suffix_def Cons_eq_append_conv)
  note th = area_values [OF c, of example_env]
  from th have run: "clean_area_m2 example_env areas =
      Inr (set_column areas ''area_m2'' (map (area_value example_env) ?col))"
    by (rule conjunct1)
  note vals = th [THEN conjunct2, THEN spec]
  have v0: "area_value example_env (PStr (ascii ''50'' @ unit_suffix)) = PFloat (Fin 50)"
    using vals [THEN conjunct1, rule_format, OF refl, of "ascii ''50''"] t0
    by (simp add: is_number_def)
  have v1: "area_value example_env (PInt 70) = PInt 70"
    using vals [THEN conjunct2, THEN conjunct1, rule_format, of "PInt 70"]
    by (simp add: is_number_def)
  have v2: "area_value example_env (PStr (ascii ''abc'')) = PFloat NaN"
    using vals [THEN conjunct2, THEN conjunct2, THEN conjunct2, rule_format, of "PStr (ascii ''abc'')"]
      t2 e2
    by (simp add: is_number_def)
  have v3: "area_value example_env (PStr (ascii ''65.5'')) = PFloat (Fin (131 / 2))"
    using vals [THEN conjunct2, THEN conjunct2, THEN conjunct1, rule_format, OF refl e3] t3
    by (simp add: is_number_def)
  from run v0 v1 v2 v3 have "clean_area_m2 example_env areas =
     Inr (set_column areas ''area_m2''
            [PFloat (Fin 50), PInt 70, PFloat NaN, PFloat (Fin (131 / 2))])"
    by simp
  with c show ?thesis by (rule conjI)
qed

section \<open>Re-running the steps\<close>























section \<open>The derived price per area\<close>

text \<open>
  With a price of 100000 and an area of 50.5 the derived value is 2000, the quotient of
  the truncated numbers, and not 1980, the floor of the quotient of the price by the area.
\<close>

theorem derived_truncates_area:
  "clean_row example_env row_half_area = Inr (PInt 2000) \<and>
   \<lfloor>(100000 :: rat) / (101 / 2)\<rfloor> = 1980"
  by (simp add: clean_row_def row_half_area_def example_env_def value_eval floor_numeral_div)

text \<open>
  C1, as amended. For a row whose \<open>price_per_sqm\<close> is missing: when the price is
  \<open>None\<close>, or \<open>int\<close> reads the price and the area is \<open>None\<close>, or \<open>int\<close> reads both and
  the area so read is zero, the derived value is \<open>None\<close> and nothing is raised; when \<open>int\<close>
  reads both as \<open>x\<close> and \<open>y\<close> and \<open>y\<close> is not zero, the derived value is \<open>x // y\<close>.
\<close>

theorem derived_price_per_sqm:
  assumes "r ''price_per_sqm'' = Some pps" and "is_na pps"
    and "r ''price'' = Some p" and "r ''area_m2'' = Some a"
  shows "(p = PNone \<longrightarrow> clean_row E r = Inr PNone) \<and>
         (\<forall>x. py_int p = Inr x \<longrightarrow> a = PNone \<longrightarrow> clean_row E r = Inr PNone) \<and>
         (\<forall>x y. py_int p = Inr x \<longrightarrow> py_int a = Inr y \<longrightarrow>
            clean_row E r = Inr (if y = 0 then PNone else PInt (x div y)))"
  using assms by (simp add: clean_row_def get_item_def floordiv_def py_int_def)

theorem derived_price_per_sqm_witness:
  "row_whole_area ''price_per_sqm'' = Some (PFloat NaN) \<and> is_na (PFloat NaN) \<and>
   row_whole_area ''price'' = Some (PFloat (Fin 100000)) \<and>
   row_whole_area ''area_m2'' = Some (PFloat (Fin 50)) \<and>
   py_int (PFloat (Fin 100000)) = Inr 100000 \<and> py_int (PFloat (Fin 50)) = Inr 50 \<and>
   clean_row example_env row_whole_area = Inr (PInt 2000)"
proof -
  have h: "row_whole_area ''price_per_sqm'' = Some (PFloat NaN)" "is_na (PFloat NaN)"
    "row_whole_area ''price'' = Some (PFloat (Fin 100000))"
    "row_whole_area ''area_m2'' = Some (PFloat (Fin 50))"
    by (simp_all add: row_whole_area_def is_na_def)
  have i: "py_int (PFloat (Fin 100000)) = Inr 100000" "py_int (PFloat (Fin 50)) = Inr 50"
    by (simp_all add: py_int_def trunc_def)
  from derived_price_per_sqm [OF h, of example_env, THEN conjunct2, THEN conjunct2, rule_format, OF i]
  have "clean_row example_env row_whole_area = Inr (PInt 2000)"
    by simp
  with h i show ?thesis by (intro conjI)
qed

section \<open>Exceptions that leave the steps\<close>

lemma unpriced_price: "clean_and_transform_price example_env listing_unpriced = Inr unpriced1"
proof -
  have a: "parse_price example_env (PStr (ascii ''100,000 $'')) = Inr (PFloat (Fin 100000))"
    by (simp add: parse_price_def example_env_def value_eval text_eval)
  have b: "parse_price example_env (PStr (ascii ''negotiable'')) = Inr PNone"
    by (simp add: parse_price_def example_env_def value_eval text_eval)
  have c: "columns listing_unpriced ''price'' =
      Some [PStr (ascii ''100,000 $''), PStr (ascii ''negotiable'')]"
    by (simp add: listing_unpriced_def)
  show ?thesis
    by (simp add: clean_and_transform_price_def get_column_def c a b convert_result_def
        is_number_def unpriced1_def)
qed

lemma unpriced_area: "clean_area_m2 example_env unpriced1 = Inr unpriced2"
proof -
  have c: "columns unpriced1 ''area_m2'' =
      Some [PStr (ascii ''50'' @ unit_suffix), PStr (ascii ''65.5'')]"
    by (simp add: unpriced1_def listing_unpriced_def columns_set_column)
  have t0: "numeric_text example_env (ascii ''50'') = PFloat (Fin 50)"
    by (simp add: example_numeric_text text_eval)
  have t1: "numeric_text example_env (ascii ''65.5'') = PFloat (Fin (131 / 2))"
    by (simp add: example_numeric_text text_eval)
  have e1: "\<not> endswith (ascii ''65.5'') unit_suffix"
    by (simp add: endswith_def unit_suffix_def ascii_def suffix_def Cons_eq_append_conv)
  have a: "area_value example_env (PStr (ascii ''50'' @ unit_suffix)) = PFloat (Fin 50)"
    by (simp add: area_value_def strip_unit_suffix to_numeric_text t0 is_number_def)
  have b: "area_value example_env (PStr (ascii ''65.5'')) = PFloat (Fin (131 / 2))"
    by (simp add: area_value_def strip_unit_other [OF e1] to_numeric_text t1 is_number_def)
  show ?thesis
    by (simp add: clean_area_m2_run [OF c] a b unpriced2_def)
qed

lemma unpriced_rows:
  "rows unpriced2 =
     [[''area_m2'' \<mapsto> PFloat (Fin 50), ''price'' \<mapsto> PFloat (Fin 100000),
       ''price_per_sqm'' \<mapsto> PStr (ascii ''2,000 $''), ''upload_date'' \<mapsto> PStr date_ok,
       ''description'' \<mapsto> PStr daily_flat, ''district_name'' \<mapsto> PStr (ascii ''Vake'')],
      [''area_m2'' \<mapsto> PFloat (Fin (131 / 2)), ''price'' \<mapsto> PFloat NaN,
       ''price_per_sqm'' \<mapsto> PFloat NaN, ''upload_date'' \<mapsto> PStr date_two_tokens,
       ''description'' \<mapsto> PFloat NaN, ''district_name'' \<mapsto> PFloat NaN]]"
  by (simp add: rows_def row_at_def unpriced2_def unpriced1_def listing_unpriced_def
      set_column_def numeral_2_eq_2 fun_eq_iff)

lemma unpriced_price_per_sqm: "clean_price_per_sqm example_env unpriced2 = Inl ValueError"
proof -
  have a: "clean_row example_env
      [''area_m2'' \<mapsto> PFloat (Fin 50), ''price'' \<mapsto> PFloat (Fin 100000),
       ''price_per_sqm'' \<mapsto> PStr (ascii ''2,000 $''), ''upload_date'' \<mapsto> PStr date_ok,
       ''description'' \<mapsto> PStr daily_flat, ''district_name'' \<mapsto> PStr (ascii ''Vake'')] =
      Inr (PFloat (Fin 2000))"
    by (simp add: clean_row_def example_env_def value_eval text_eval Let_def)
  have b: "clean_row example_env
      [''area_m2'' \<mapsto> PFloat (Fin (131 / 2)), ''price'' \<mapsto> PFloat NaN,
       ''price_per_sqm'' \<mapsto> PFloat NaN, ''upload_date'' \<mapsto> PStr date_two_tokens,
       ''description'' \<mapsto> PFloat NaN, ''district_name'' \<mapsto> PFloat NaN] =
      Inl ValueError"
    by (simp add: clean_row_def example_env_def value_eval)
  show ?thesis
    by (simp add: clean_price_per_sqm_def unpriced_rows a b)
qed

lemma unpriced_main: "main example_env listing_unpriced = Inl ValueError"
  by (simp add: main_def unpriced_price unpriced_area unpriced_price_per_sqm)

text \<open>
  C2. The price step gives \<open>None\<close> for the price \<open>negotiable\<close>. The price-per-area step
  raises \<open>ValueError\<close> for a \<open>price_per_sqm\<close> that does not read as a number, and for a
  missing one beside a price or an area that is \<open>NaN\<close>; the exception ends the step and
  the run of \<open>main\<close>, as on the table whose second row has the price \<open>negotiable\<close> and no
  \<open>price_per_sqm\<close>. The price step raises \<open>OverflowError\<close> for the price \<open>inf\<close>.
\<close>

theorem price_per_sqm_raises:
  "parse_price example_env (PStr (ascii ''negotiable'')) = Inr PNone \<and>
   clean_row example_env row_negotiable = Inl ValueError \<and>
   clean_price_per_sqm example_env listing_negotiable = Inl ValueError \<and>
   clean_row example_env row_nan_area = Inl ValueError \<and>
   main example_env listing_unpriced = Inl ValueError \<and>
   parse_price example_env (PStr (ascii ''inf'')) = Inl OverflowError"
proof -
  have n: "parse_price example_env (PStr (ascii ''negotiable'')) = Inr PNone"
    by (simp add: parse_price_def example_env_def value_eval text_eval)
  have a: "clean_row example_env row_negotiable = Inl ValueError"
    by (simp add: clean_row_def row_negotiable_def example_env_def value_eval text_eval Let_def)
  have "rows listing_negotiable = [row_negotiable]"
    by (simp add: rows_def listing_negotiable_def row_at_def row_negotiable_def fun_eq_iff)
  then have b: "clean_price_per_sqm example_env listing_negotiable = Inl ValueError"
    by (simp add: clean_price_per_sqm_def a)
  have c: "clean_row example_env row_nan_area = Inl ValueError"
    by (simp add: clean_row_def row_nan_area_def example_env_def value_eval)
  have d: "parse_price example_env (PStr (ascii ''inf'')) = Inl OverflowError"
    by (simp add: parse_price_def example_env_def value_eval text_eval)
  from n a b c unpriced_main d show ?thesis by (intro conjI)
qed

section \<open>The price parser\<close>



section \<open>The transaction-type classifier\<close>

lemma contains_sublist: "contains needle s \<longleftrightarrow> sublist needle s"
  by (induction s) (simp_all add: sublist_Cons_right)

lemma sublist_dropWhile:
  assumes "sublist m s" and "m \<noteq> []" and "\<not> P (hd m)"
  shows "sublist m (dropWhile P s)"
proof -
  from assms(1) obtain ps ss where s: "s = ps @ m @ ss"
    unfolding sublist_def by blast
  from assms(2,3) obtain y ms where m: "m = y # ms" and y: "\<not> P y"
    by (cases m) simp_all
  from y have "dropWhile P (ps @ y # (ms @ ss)) = dropWhile P ps @ y # (ms @ ss)"
    by (rule dropWhile_append3)
  then have "dropWhile P s = dropWhile P ps @ m @ ss"
    by (simp add: s m)
  then show ?thesis
    unfolding sublist_def by (intro exI)
qed

lemma sublist_strip_back:
  assumes "sublist m (py_strip s)"
  shows "sublist m s"
proof -
  let ?t = "dropWhile py_isspace s"
  have "suffix (dropWhile py_isspace (rev ?t)) (rev ?t)"
    by (rule suffix_dropWhile)
  then have "sublist (dropWhile py_isspace (rev ?t)) (rev ?t)"
    by (rule suffix_imp_sublist)
  then have "sublist (rev (dropWhile py_isspace (rev ?t))) ?t"
    by (simp only: sublist_rev_left)
  then have a: "sublist (py_strip s) ?t"
    by (simp only: py_strip_def)
  have "suffix ?t s"
    by (rule suffix_dropWhile)
  then have b: "sublist ?t s"
    by (rule suffix_imp_sublist)
  from assms a have "sublist m ?t"
    by (rule sublist_order.order_trans)
  from this b show ?thesis
    by (rule sublist_order.order_trans)
qed

lemma sublist_strip:
  assumes "sublist m s" and "m \<noteq> []" and "\<not> py_isspace (hd m)" and "\<not> py_isspace (last m)"
  shows "sublist m (py_strip s)"
proof -
  let ?t = "dropWhile py_isspace s"
  have "sublist m ?t"
    using assms(1,2,3) by (rule sublist_dropWhile)
  then have a: "sublist (rev m) (rev ?t)"
    by (simp only: sublist_rev)
  from assms(2) have b: "rev m \<noteq> []"
    by simp
  from assms(2,4) have c: "\<not> py_isspace (hd (rev m))"
    by (simp only: hd_rev not_False_eq_True)
  from a b c have "sublist (rev m) (dropWhile py_isspace (rev ?t))"
    by (rule sublist_dropWhile)
  then have "sublist m (rev (dropWhile py_isspace (rev ?t)))"
    by (simp only: sublist_rev_left)
  then show ?thesis
    by (simp only: py_strip_def)
qed

lemma contains_strip:
  assumes "m \<noteq> []" and "\<not> py_isspace (hd m)" and "\<not> py_isspace (last m)"
  shows "contains m (py_strip s) \<longleftrightarrow> contains m s"
proof
  assume "contains m (py_strip s)"
  then have "sublist m (py_strip s)" by (simp only: contains_sublist)
  then have "sublist m s" by (rule sublist_strip_back)
  then show "contains m s" by (simp only: contains_sublist)
next
  assume "contains m s"
  then have "sublist m s" by (simp only: contains_sublist)
  from this assms have "sublist m (py_strip s)" by (rule sublist_strip)
  then show "contains m (py_strip s)" by (simp only: contains_sublist)
qed


lemma marker_strip:
  "contains for_sale (py_strip s) \<longleftrightarrow> contains for_sale s"
  "contains pledge (py_strip s) \<longleftrightarrow> contains pledge s"
  "contains rent_daily (py_strip s) \<longleftrightarrow> contains rent_daily s"
  "contains rent (py_strip s) \<longleftrightarrow> contains rent s"
proof -
  show "contains for_sale (py_strip s) \<longleftrightarrow> contains for_sale s"
    by (rule contains_strip) (simp_all add: for_sale_def py_isspace_def)
  show "contains pledge (py_strip s) \<longleftrightarrow> contains pledge s"
    by (rule contains_strip) (simp_all add: pledge_def py_isspace_def)
  show "contains rent_daily (py_strip s) \<longleftrightarrow> contains rent_daily s"
    by (rule contains_strip) (simp_all add: rent_daily_def py_isspace_def)
  show "contains rent (py_strip s) \<longleftrightarrow> contains rent s"
    by (rule contains_strip) (simp_all add: rent_def py_isspace_def)
qed

lemma rent_in_rent_daily:
  assumes "contains rent_daily s"
  shows "contains rent s"
proof -
  have "prefix rent rent_daily"
    by (simp add: rent_def rent_daily_def)
  then have a: "sublist rent rent_daily"
    by (rule prefix_imp_sublist)
  from assms have "sublist rent_daily s"
    by (simp only: contains_sublist)
  with a have "sublist rent s"
    by (rule sublist_order.order_trans)
  then show ?thesis
    by (simp only: contains_sublist)
qed

lemma labels_distinct:
  "distinct [for_sale, pledge, rent_daily, rent_monthly]" "rent_monthly \<noteq> rent"
  by (simp_all add: for_sale_def pledge_def rent_daily_def rent_monthly_def rent_def)

lemma extract_text:
  "extract_transaction_type (PStr s) =
     (if contains for_sale s then PStr for_sale
      else if contains pledge s then PStr pledge
      else if contains rent_daily s then PStr rent_daily
      else if contains rent s then PStr rent_monthly
      else PNone)"
  by (simp only: extract_transaction_type_def Let_def marker_strip pyval.case)

text \<open>
  C6. \<open>extract_transaction_type\<close> gives \<open>None\<close> or one of four labels that differ from
  each other; on a text it is the first match over the markers in the order for-sale,
  pledge, daily rental, rental, where the rental marker gives the monthly-rental label,
  which is not the marker itself; a text that has the daily-rental marker also has the
  rental marker, and gets one of the first three labels, never the monthly one; a value
  that is not a text, and a text with none of the markers, give \<open>None\<close>.
\<close>

theorem transaction_type_first_match:
  "extract_transaction_type desc \<in>
     {PNone, PStr for_sale, PStr pledge, PStr rent_daily, PStr rent_monthly} \<and>
   distinct [for_sale, pledge, rent_daily, rent_monthly] \<and> rent_monthly \<noteq> rent \<and>
   (\<forall>s. desc = PStr s \<longrightarrow>
      extract_transaction_type desc =
        (if contains for_sale s then PStr for_sale
         else if contains pledge s then PStr pledge
         else if contains rent_daily s then PStr rent_daily
         else if contains rent s then PStr rent_monthly
         else PNone) \<and>
      (contains rent_daily s \<longrightarrow>
         extract_transaction_type desc \<in> {PStr for_sale, PStr pledge, PStr rent_daily} \<and>
         extract_transaction_type desc \<noteq> PStr rent_monthly \<and> contains rent s)) \<and>
   ((\<forall>s. desc \<noteq> PStr s) \<longrightarrow> extract_transaction_type desc = PNone)"
proof (intro conjI allI impI)
  show "extract_transaction_type desc \<in>
     {PNone, PStr for_sale, PStr pledge, PStr rent_daily, PStr rent_monthly}"
  proof (cases desc)
    case (PStr s)
    show ?thesis unfolding PStr extract_text by simp
  qed (simp_all add: extract_transaction_type_def)
  show "distinct [for_sale, pledge, rent_daily, rent_monthly]"
    by (rule labels_distinct)
  show "rent_monthly \<noteq> rent"
    by (rule labels_distinct)
next
  fix s assume d: "desc = PStr s"
  show e: "extract_transaction_type desc =
        (if contains for_sale s then PStr for_sale
         else if contains pledge s then PStr pledge
         else if contains rent_daily s then PStr rent_daily
         else if contains rent s then PStr rent_monthly
         else PNone)"
    unfolding d by (rule extract_text)
  assume c: "contains rent_daily s"
  show "extract_transaction_type desc \<in> {PStr for_sale, PStr pledge, PStr rent_daily}"
    unfolding d extract_text using c by simp
  show "extract_transaction_type desc \<noteq> PStr rent_monthly"
    unfolding d extract_text using c labels_distinct by simp
  from c show "contains rent s"
    by (rule rent_in_rent_daily)
next
  assume "\<forall>s. desc \<noteq> PStr s"
  then show "extract_transaction_type desc = PNone"
    by (cases desc) (simp_all add: extract_transaction_type_def)
qed

theorem transaction_type_first_match_witness:
  "contains rent_daily daily_flat \<and> \<not> contains for_sale daily_flat \<and>
   \<not> contains pledge daily_flat \<and>
   extract_transaction_type (PStr daily_flat) = PStr rent_daily \<and>
   extract_transaction_type (PStr daily_flat) \<noteq> PStr rent_monthly \<and>
   extract_transaction_type PNone = PNone"
proof -
  have c: "contains rent_daily daily_flat"
    by (simp add: daily_flat_def rent_daily_def)
  have n1: "\<not> contains for_sale daily_flat"
    by (simp add: daily_flat_def rent_daily_def for_sale_def)
  have n2: "\<not> contains pledge daily_flat"
    by (simp add: daily_flat_def rent_daily_def pledge_def)
  note th = transaction_type_first_match [of "PStr daily_flat"]
  note tx = th [THEN conjunct2, THEN conjunct2, THEN conjunct2, THEN conjunct1, THEN spec,
      THEN mp, OF refl]
  from tx [THEN conjunct1] c n1 n2
  have e: "extract_transaction_type (PStr daily_flat) = PStr rent_daily"
    by simp
  have m: "extract_transaction_type (PStr daily_flat) \<noteq> PStr rent_monthly"
    by (rule tx [THEN conjunct2, THEN mp, OF c, THEN conjunct2, THEN conjunct1])
  have "\<forall>s. PNone \<noteq> PStr s"
    by simp
  then have z: "extract_transaction_type PNone = PNone"
    by (rule transaction_type_first_match [of PNone, THEN conjunct2, THEN conjunct2,
          THEN conjunct2, THEN conjunct2, THEN mp])
  from c n1 n2 e m z show ?thesis by (intro conjI)
qed

section \<open>The upload-date parser\<close>

lemma geo_months_range: "geo_months k = Some m \<Longrightarrow> 1 \<le> m \<and> m \<le> 12"
  by (auto simp: geo_months_def split: if_splits)

lemma int_text_eq:
  "int_text s = (case int_of_text s of None \<Rightarrow> Inl ValueError | Some n \<Rightarrow> Inr n)"
  by (simp add: int_text_def py_int_def)

lemma parse_date_tokens:
  assumes "1 \<le> now_year E" and "now_year E \<le> 9999"
    and "py_split s = [day, mon, tm]" and "geo_months (take 3 mon) = Some m"
  shows "parse_date E s =
    (case int_of_text day of None \<Rightarrow> PNone | Some d \<Rightarrow>
     (case int_of_text (take 2 tm) of None \<Rightarrow> PNone | Some h \<Rightarrow>
      (case int_of_text (take 2 (drop 3 tm)) of None \<Rightarrow> PNone | Some mi \<Rightarrow>
        if 1 \<le> d \<and> d \<le> days_in_month (now_year E) m \<and> 0 \<le> h \<and> h \<le> 23 \<and> 0 \<le> mi \<and> mi \<le> 59
        then PDatetime \<lparr>dt_year = now_year E, dt_month = m, dt_day = d, dt_hour = h,
                         dt_minute = mi\<rparr>
        else PNone)))"
proof -
  from geo_months_range [OF assms(4)] have m: "1 \<le> m" "m \<le> 12" "m \<noteq> 0"
    by simp_all
  show ?thesis
    using assms(1,2) m
    by (simp add: parse_date_def parse_date_try_def assms(3,4) int_text_eq datetime_new_def
        split: option.splits)
qed

lemma parse_date_not_three: "length (py_split s) \<noteq> 3 \<Longrightarrow> parse_date E s = PNone"
  by (simp add: parse_date_def parse_date_try_def)

lemma parse_date_unknown_month:
  "py_split s = [day, mon, tm] \<Longrightarrow> geo_months (take 3 mon) = None \<Longrightarrow> parse_date E s = PNone"
  by (simp add: parse_date_def parse_date_try_def)

lemma int_of_two_digits:
  assumes "is_digit a" and "is_digit b"
  shows "int_of_text [a, b] = Some (10 * (a - 48) + (b - 48))"
  using assms
  by (simp add: int_of_text_def num_strip_def to_ascii_def c_isspace_def is_digit_def
      remove_char_def signed_digits_def dec_value_def)


lemma geo_months_twelve: "card (dom geo_months) = 12"
  by (simp add: geo_months_def dom_map_of_conv_image_fst)

lemmas split_eval = py_split_def py_isspace_def ascii_def

lemmas int_eval =
  int_of_text_def num_strip_def to_ascii_def c_isspace_def is_digit_def remove_char_def
  signed_digits_def dec_value_def py_isspace_def ascii_def

text \<open>
  A day of 45 is read by \<open>int\<close>, the month is known and the time is read, yet the result
  is missing: \<open>datetime\<close> refuses the day.
\<close>

theorem day_out_of_range_missing:
  "py_split date_day45 = [ascii ''45'', [4315, 4304, 4320], ascii ''14:30''] \<and>
   geo_months (take 3 [4315, 4304, 4320]) = Some 3 \<and>
   int_of_text (ascii ''45'') = Some 45 \<and>
   int_of_text (take 2 (ascii ''14:30'')) = Some 14 \<and>
   int_of_text (take 2 (drop 3 (ascii ''14:30''))) = Some 30 \<and>
   parse_date example_env date_day45 = PNone"
proof -
  have a: "py_split date_day45 = [ascii ''45'', [4315, 4304, 4320], ascii ''14:30'']"
    by (simp add: date_day45_def split_eval)
  have b: "geo_months (take 3 [4315, 4304, 4320]) = Some 3"
    by (simp add: geo_months_def)
  have c: "int_of_text (ascii ''45'') = Some 45"
    by (simp add: int_eval)
  have d: "int_of_text (take 2 (ascii ''14:30'')) = Some 14"
    by (simp add: int_eval)
  have e: "int_of_text (take 2 (drop 3 (ascii ''14:30''))) = Some 30"
    by (simp add: int_eval)
  have y: "1 \<le> now_year example_env" "now_year example_env \<le> 9999"
    by (simp_all add: example_env_def)
  have f: "parse_date example_env date_day45 = PNone"
    by (simp add: parse_date_tokens [OF y a b] c d e days_in_month_def)
  from a b c d e f show ?thesis by (intro conjI)
qed

text \<open>
  C5, as amended. For a text of exactly three tokens whose month token starts with an
  entry of the month table, and whose day, hour (the first two characters of the time
  token) and minute (its fourth and fifth) are read by \<open>int\<close>: the result is the timestamp
  of the current year, the month of the table, and that day, hour and minute, when the
  day is a day of that month in that year, the hour is at most 23 and the minute at most
  59, and it is missing otherwise. It is missing when the tokens are not three, when the
  month is not in the table, and when one of the three numbers is not read. The table has
  twelve entries, with the months 1 to 12.
\<close>

theorem parse_date_result:
  assumes "1 \<le> now_year E" and "now_year E \<le> 9999"
  shows
   "(\<forall>day mon tm m d h mi.
       py_split s = [day, mon, tm] \<longrightarrow> geo_months (take 3 mon) = Some m \<longrightarrow>
       int_of_text day = Some d \<longrightarrow> int_of_text (take 2 tm) = Some h \<longrightarrow>
       int_of_text (take 2 (drop 3 tm)) = Some mi \<longrightarrow>
       parse_date E s =
         (if 1 \<le> d \<and> d \<le> days_in_month (now_year E) m \<and> 0 \<le> h \<and> h \<le> 23 \<and>
             0 \<le> mi \<and> mi \<le> 59
          then PDatetime \<lparr>dt_year = now_year E, dt_month = m, dt_day = d, dt_hour = h,
                           dt_minute = mi\<rparr>
          else PNone)) \<and>
    (length (py_split s) \<noteq> 3 \<longrightarrow> parse_date E s = PNone) \<and>
    (\<forall>day mon tm.
       py_split s = [day, mon, tm] \<longrightarrow>
       geo_months (take 3 mon) = None \<or> int_of_text day = None \<or>
       int_of_text (take 2 tm) = None \<or> int_of_text (take 2 (drop 3 tm)) = None \<longrightarrow>
       parse_date E s = PNone) \<and>
    card (dom geo_months) = 12 \<and>
    (\<forall>k m. geo_months k = Some m \<longrightarrow> 1 \<le> m \<and> m \<le> 12)"
proof (intro conjI allI impI)
  fix day mon tm m d h mi
  assume "py_split s = [day, mon, tm]" "geo_months (take 3 mon) = Some m"
    "int_of_text day = Some d" "int_of_text (take 2 tm) = Some h"
    "int_of_text (take 2 (drop 3 tm)) = Some mi"
  then show "parse_date E s =
         (if 1 \<le> d \<and> d \<le> days_in_month (now_year E) m \<and> 0 \<le> h \<and> h \<le> 23 \<and>
             0 \<le> mi \<and> mi \<le> 59
          then PDatetime \<lparr>dt_year = now_year E, dt_month = m, dt_day = d, dt_hour = h,
                           dt_minute = mi\<rparr>
          else PNone)"
    by (simp add: parse_date_tokens [OF assms])
next
  assume "length (py_split s) \<noteq> 3"
  then show "parse_date E s = PNone"
    by (rule parse_date_not_three)
next
  fix day mon tm
  assume t: "py_split s = [day, mon, tm]"
    and f: "geo_months (take 3 mon) = None \<or> int_of_text day = None \<or>
       int_of_text (take 2 tm) = None \<or> int_of_text (take 2 (drop 3 tm)) = None"
  show "parse_date E s = PNone"
  proof (cases "geo_months (take 3 mon)")
    case None
    with t show ?thesis by (rule parse_date_unknown_month)
  next
    case (Some m)
    with f show ?thesis
      by (auto simp: parse_date_tokens [OF assms t Some] split: option.splits)
  qed
next
  show "card (dom geo_months) = 12"
    by (rule geo_months_twelve)
next
  fix k m assume "geo_months k = Some m"
  then show "1 \<le> m" "m \<le> 12"
    using geo_months_range by blast+
qed

theorem parse_date_result_witness:
  "1 \<le> now_year example_env \<and> now_year example_env \<le> 9999 \<and>
   py_split date_ok = [ascii ''15'', [4315, 4304, 4320], ascii ''14:30''] \<and>
   parse_date example_env date_ok =
     PDatetime \<lparr>dt_year = 2026, dt_month = 3, dt_day = 15, dt_hour = 14, dt_minute = 30\<rparr> \<and>
   length (py_split date_two_tokens) \<noteq> 3 \<and>
   parse_date example_env date_two_tokens = PNone"
proof -
  have y: "1 \<le> now_year example_env" "now_year example_env \<le> 9999"
    by (simp_all add: example_env_def)
  have a: "py_split date_ok = [ascii ''15'', [4315, 4304, 4320], ascii ''14:30'']"
    by (simp add: date_ok_def split_eval)
  have b: "geo_months (take 3 [4315, 4304, 4320]) = Some 3"
    by (simp add: geo_months_def)
  have c: "int_of_text (ascii ''15'') = Some 15"
    by (simp add: int_eval)
  have d: "int_of_text (take 2 (ascii ''14:30'')) = Some 14"
    by (simp add: int_eval)
  have e: "int_of_text (take 2 (drop 3 (ascii ''14:30''))) = Some 30"
    by (simp add: int_eval)
  note th = parse_date_result [OF y]
  from th [of date_ok, THEN conjunct1, rule_format, OF a b c d e]
  have p: "parse_date example_env date_ok =
     PDatetime \<lparr>dt_year = 2026, dt_month = 3, dt_day = 15, dt_hour = 14, dt_minute = 30\<rparr>"
    by (simp add: days_in_month_def example_env_def)
  have n: "length (py_split date_two_tokens) \<noteq> 3"
    by (simp add: date_two_tokens_def split_eval)
  have q: "parse_date example_env date_two_tokens = PNone"
    by (rule th [of date_two_tokens, THEN conjunct2, THEN conjunct1, THEN mp, OF n])
  from y a p n q show ?thesis by (intro conjI)
qed

text \<open>
  A time token with digits at the positions 0, 1, 3 and 4 is not always accepted:
  \<open>99x99\<close> gives a missing value.
\<close>

theorem time_out_of_range_missing:
  "py_split date_99 = [ascii ''15'', [4315, 4304, 4320], [57, 57, 120, 57, 57]] \<and>
   parse_date example_env date_99 = PNone"
proof -
  have a: "py_split date_99 = [ascii ''15'', [4315, 4304, 4320], [57, 57, 120, 57, 57]]"
    by (simp add: date_99_def split_eval)
  have b: "geo_months (take 3 [4315, 4304, 4320]) = Some 3"
    by (simp add: geo_months_def)
  have y: "1 \<le> now_year example_env" "now_year example_env \<le> 9999"
    by (simp_all add: example_env_def)
  have "parse_date example_env date_99 = PNone"
    by (simp add: parse_date_tokens [OF y a b] int_eval)
  with a show ?thesis by (intro conjI)
qed

text \<open>
  C10, as amended. For a text of three tokens with a known month and a day of that month,
  and a time token whose characters at the positions 0, 1, 3 and 4 are digits: whatever
  the character at position 2 is, the result is the timestamp with the hour and the
  minute of those digits when the hour is at most 23 and the minute at most 59, and it is
  missing otherwise.
\<close>

theorem time_separator_unchecked:
  assumes "1 \<le> now_year E" and "now_year E \<le> 9999"
    and "py_split s = [day, mon, a # b # c # d # e # rest]"
    and "geo_months (take 3 mon) = Some m"
    and "int_of_text day = Some dv" and "1 \<le> dv" and "dv \<le> days_in_month (now_year E) m"
    and "is_digit a" and "is_digit b" and "is_digit d" and "is_digit e"
  shows "parse_date E s =
    (if 10 * (a - 48) + (b - 48) \<le> 23 \<and> 10 * (d - 48) + (e - 48) \<le> 59
     then PDatetime \<lparr>dt_year = now_year E, dt_month = m, dt_day = dv,
                      dt_hour = 10 * (a - 48) + (b - 48),
                      dt_minute = 10 * (d - 48) + (e - 48)\<rparr>
     else PNone)"
proof -
  define hh where "hh = 10 * (a - 48) + (b - 48)"
  define mm where "mm = 10 * (d - 48) + (e - 48)"
  have h: "int_of_text [a, b] = Some hh"
    unfolding hh_def using assms(8,9) by (rule int_of_two_digits)
  have mi: "int_of_text [d, e] = Some mm"
    unfolding mm_def using assms(10,11) by (rule int_of_two_digits)
  have nn: "0 \<le> hh" "0 \<le> mm"
    using assms(8-11) by (simp_all add: hh_def mm_def is_digit_def)
  have "parse_date E s =
    (if hh \<le> 23 \<and> mm \<le> 59
     then PDatetime \<lparr>dt_year = now_year E, dt_month = m, dt_day = dv, dt_hour = hh,
                      dt_minute = mm\<rparr>
     else PNone)"
    using assms(6,7) nn
    by (simp add: parse_date_tokens [OF assms(1-4)] assms(5) h mi)
  then show ?thesis
    unfolding hh_def mm_def .
qed

theorem time_separator_unchecked_witness:
  "1 \<le> now_year example_env \<and> now_year example_env \<le> 9999 \<and>
   py_split date_x = [ascii ''15'', [4315, 4304, 4320], [49, 52, 120, 51, 48]] \<and>
   geo_months (take 3 [4315, 4304, 4320]) = Some 3 \<and>
   int_of_text (ascii ''15'') = Some 15 \<and>
   15 \<le> days_in_month (now_year example_env) 3 \<and>
   is_digit 49 \<and> is_digit 52 \<and> is_digit 51 \<and> is_digit 48 \<and>
   parse_date example_env date_x =
     PDatetime \<lparr>dt_year = 2026, dt_month = 3, dt_day = 15, dt_hour = 14, dt_minute = 30\<rparr>"
proof -
  have y: "1 \<le> now_year example_env" "now_year example_env \<le> 9999"
    by (simp_all add: example_env_def)
  have a: "py_split date_x = [ascii ''15'', [4315, 4304, 4320], [49, 52, 120, 51, 48]]"
    by (simp add: date_x_def split_eval)
  have b: "geo_months (take 3 [4315, 4304, 4320]) = Some 3"
    by (simp add: geo_months_def)
  have c: "int_of_text (ascii ''15'') = Some 15"
    by (simp add: int_eval)
  have v: "(1::int) \<le> 15" "15 \<le> days_in_month (now_year example_env) 3"
    by (simp_all add: days_in_month_def)
  have g: "is_digit 49" "is_digit 52" "is_digit 51" "is_digit 48"
    by (simp_all add: is_digit_def)
  from time_separator_unchecked [OF y a b c v g]
  have p: "parse_date example_env date_x =
     PDatetime \<lparr>dt_year = 2026, dt_month = 3, dt_day = 15, dt_hour = 14, dt_minute = 30\<rparr>"
    by (simp add: example_env_def)
  from y a b c v(2) g p show ?thesis by (intro conjI)
qed

section \<open>Rows and columns through the pipeline\<close>

lemma ebind_eq_Inr: "ebind r f = Inr y \<longleftrightarrow> (\<exists>x. r = Inr x \<and> f x = Inr y)"
  by (cases r) simp_all

lemma get_column_eq_Inr: "get_column df c = Inr col \<longleftrightarrow> columns df c = Some col"
  by (simp add: get_column_def split: option.splits)

lemma traverse_length: "traverse f xs = Inr ys \<Longrightarrow> length ys = length xs"
  by (induction xs arbitrary: ys) (auto split: sum.splits)

lemma length_convert_result: "length (convert_result res) = length res"
  by (simp add: convert_result_def)

lemma dom_set_column: "dom (columns (set_column df c col)) = insert c (dom (columns df))"
  by (simp add: set_column_def)

lemma wf_set_column: "wf_df df \<Longrightarrow> length col = nrows df \<Longrightarrow> wf_df (set_column df c col)"
  by (simp add: wf_df_def set_column_def)

lemma wf_column: "wf_df df \<Longrightarrow> columns df c = Some col \<Longrightarrow> length col = nrows df"
  by (simp add: wf_df_def)

lemma same_but_set_column:
  assumes "wf_df df \<Longrightarrow> length col = nrows df"
  shows "same_but {c} df (set_column df c col)"
  using assms by (simp add: same_but_def nrows_set_column columns_set_column wf_set_column)

lemma same_but_trans:
  "same_but a df df1 \<Longrightarrow> same_but b df1 df2 \<Longrightarrow> same_but (a \<union> b) df df2"
  by (simp add: same_but_def)

lemma price_step:
  assumes "clean_and_transform_price E df = Inr df'"
  shows "same_but {''price''} df df' \<and> dom (columns df') = dom (columns df)"
proof -
  from assms obtain col res where c: "columns df ''price'' = Some col"
    and t: "traverse (parse_price E) col = Inr res"
    and d: "df' = set_column df ''price'' (convert_result res)"
    by (auto simp: clean_and_transform_price_def ebind_eq_Inr get_column_eq_Inr)
  have "wf_df df \<Longrightarrow> length (convert_result res) = nrows df"
    using traverse_length [OF t] wf_column [OF _ c] by (simp add: length_convert_result)
  then have "same_but {''price''} df df'"
    unfolding d by (rule same_but_set_column)
  moreover from c have "dom (columns df') = dom (columns df)"
    unfolding d dom_set_column by (simp add: insert_absorb domI)
  ultimately show ?thesis by (rule conjI)
qed

lemma area_step:
  assumes "clean_area_m2 E df = Inr df'"
  shows "same_but {''area_m2''} df df' \<and> dom (columns df') = dom (columns df)"
proof -
  from assms obtain col where c: "columns df ''area_m2'' = Some col"
    by (cases "columns df ''area_m2''") (simp_all add: clean_area_m2_def get_column_def)
  from assms have d: "df' = set_column df ''area_m2'' (map (area_value E) col)"
    by (simp add: clean_area_m2_run [OF c])
  have "wf_df df \<Longrightarrow> length (map (area_value E) col) = nrows df"
    using wf_column [OF _ c] by simp
  then have "same_but {''area_m2''} df df'"
    unfolding d by (rule same_but_set_column)
  moreover from c have "dom (columns df') = dom (columns df)"
    unfolding d dom_set_column by (simp add: insert_absorb domI)
  ultimately show ?thesis by (rule conjI)
qed

lemma price_per_sqm_step:
  assumes "clean_price_per_sqm E df = Inr df'"
  shows "same_but {''price_per_sqm''} df df' \<and>
         dom (columns df') = insert ''price_per_sqm'' (dom (columns df))"
proof -
  from assms obtain res where t: "traverse (clean_row E) (rows df) = Inr res"
    and d: "df' = set_column df ''price_per_sqm'' (convert_result res)"
    by (auto simp: clean_price_per_sqm_def ebind_eq_Inr)
  have "length (convert_result res) = nrows df"
    using traverse_length [OF t] by (simp add: length_convert_result rows_def)
  then have "same_but {''price_per_sqm''} df df'"
    unfolding d by (intro same_but_set_column)
  moreover have "dom (columns df') = insert ''price_per_sqm'' (dom (columns df))"
    unfolding d by (rule dom_set_column)
  ultimately show ?thesis by (rule conjI)
qed

lemma upload_date_step:
  assumes "transform_upload_date E df = Inr df'"
  shows "same_but {''upload_date''} df df' \<and> dom (columns df') = dom (columns df)"
proof -
  from assms obtain col where c: "columns df ''upload_date'' = Some col"
    by (cases "columns df ''upload_date''") (simp_all add: transform_upload_date_def get_column_def)
  from assms obtain col' where d: "df' = set_column df ''upload_date'' col'"
    and l: "length col' = length col"
    by (auto simp: transform_upload_date_def get_column_def c Let_def columns_set_column
        set_column_twice)
  have "wf_df df \<Longrightarrow> length col' = nrows df"
    using wf_column [OF _ c] l by simp
  then have "same_but {''upload_date''} df df'"
    unfolding d by (rule same_but_set_column)
  moreover from c have "dom (columns df') = dom (columns df)"
    unfolding d dom_set_column by (simp add: insert_absorb domI)
  ultimately show ?thesis by (rule conjI)
qed

lemma transaction_type_step:
  assumes "new_transaction_type_col df = Inr df'"
  shows "same_but {''transaction_type''} df df' \<and>
         dom (columns df') = insert ''transaction_type'' (dom (columns df))"
proof -
  from assms obtain col where c: "columns df ''description'' = Some col"
    and d: "df' = set_column df ''transaction_type'' (map extract_transaction_type col)"
    by (auto simp: new_transaction_type_col_def ebind_eq_Inr get_column_eq_Inr)
  have "wf_df df \<Longrightarrow> length (map extract_transaction_type col) = nrows df"
    using wf_column [OF _ c] by simp
  then have "same_but {''transaction_type''} df df'"
    unfolding d by (rule same_but_set_column)
  moreover have "dom (columns df') = insert ''transaction_type'' (dom (columns df))"
    unfolding d by (rule dom_set_column)
  ultimately show ?thesis by (rule conjI)
qed

lemma district_step:
  assumes "fill_district_name_nulls df = Inr df'"
  shows "same_but {''district_name''} df df' \<and> dom (columns df') = dom (columns df)"
proof -
  from assms obtain col where c: "columns df ''district_name'' = Some col"
    and d: "df' = set_column df ''district_name'' (fillna (PStr not_provided) col)"
    by (auto simp: fill_district_name_nulls_def ebind_eq_Inr get_column_eq_Inr)
  have "wf_df df \<Longrightarrow> length (fillna (PStr not_provided) col) = nrows df"
    using wf_column [OF _ c] by (simp add: fillna_def)
  then have "same_but {''district_name''} df df'"
    unfolding d by (rule same_but_set_column)
  moreover from c have "dom (columns df') = dom (columns df)"
    unfolding d dom_set_column by (simp add: insert_absorb domI)
  ultimately show ?thesis by (rule conjI)
qed


lemma listing_price: "clean_and_transform_price example_env listing = Inr listing1"
proof -
  have a: "parse_price example_env (PStr (ascii ''100,000 $'')) = Inr (PFloat (Fin 100000))"
    by (simp add: parse_price_def example_env_def value_eval text_eval)
  have b: "parse_price example_env (PStr (ascii ''1,001'')) = Inr (PInt 500)"
    by (simp add: parse_price_def example_env_def value_eval text_eval floor_numeral_div)
  have c: "columns listing ''price'' = Some [PStr (ascii ''100,000 $''), PStr (ascii ''1,001'')]"
    by (simp add: listing_def)
  show ?thesis
    by (simp add: clean_and_transform_price_def get_column_def c a b convert_result_def
        is_number_def listing1_def)
qed

lemma listing_area: "clean_area_m2 example_env listing1 = Inr listing2"
proof -
  have c: "columns listing1 ''area_m2'' =
      Some [PStr (ascii ''50'' @ unit_suffix), PStr (ascii ''65.5'')]"
    by (simp add: listing1_def listing_def columns_set_column)
  have t0: "numeric_text example_env (ascii ''50'') = PFloat (Fin 50)"
    by (simp add: example_numeric_text text_eval)
  have t1: "numeric_text example_env (ascii ''65.5'') = PFloat (Fin (131 / 2))"
    by (simp add: example_numeric_text text_eval)
  have e1: "\<not> endswith (ascii ''65.5'') unit_suffix"
    by (simp add: endswith_def unit_suffix_def ascii_def suffix_def Cons_eq_append_conv)
  have a: "area_value example_env (PStr (ascii ''50'' @ unit_suffix)) = PFloat (Fin 50)"
    by (simp add: area_value_def strip_unit_suffix to_numeric_text t0 is_number_def)
  have b: "area_value example_env (PStr (ascii ''65.5'')) = PFloat (Fin (131 / 2))"
    by (simp add: area_value_def strip_unit_other [OF e1] to_numeric_text t1 is_number_def)
  show ?thesis
    by (simp add: clean_area_m2_run [OF c] a b listing2_def)
qed

lemma listing_rows:
  "rows listing2 =
     [[''area_m2'' \<mapsto> PFloat (Fin 50), ''price'' \<mapsto> PFloat (Fin 100000),
       ''price_per_sqm'' \<mapsto> PStr (ascii ''2,000 $''), ''upload_date'' \<mapsto> PStr date_ok,
       ''description'' \<mapsto> PStr daily_flat, ''district_name'' \<mapsto> PStr (ascii ''Vake'')],
      [''area_m2'' \<mapsto> PFloat (Fin (131 / 2)), ''price'' \<mapsto> PInt 500,
       ''price_per_sqm'' \<mapsto> PFloat NaN, ''upload_date'' \<mapsto> PStr date_two_tokens,
       ''description'' \<mapsto> PFloat NaN, ''district_name'' \<mapsto> PFloat NaN]]"
  by (simp add: rows_def row_at_def listing2_def listing1_def listing_def set_column_def
      numeral_2_eq_2 fun_eq_iff)

lemma listing_price_per_sqm: "clean_price_per_sqm example_env listing2 = Inr listing3"
proof -
  have a: "clean_row example_env
      [''area_m2'' \<mapsto> PFloat (Fin 50), ''price'' \<mapsto> PFloat (Fin 100000),
       ''price_per_sqm'' \<mapsto> PStr (ascii ''2,000 $''), ''upload_date'' \<mapsto> PStr date_ok,
       ''description'' \<mapsto> PStr daily_flat, ''district_name'' \<mapsto> PStr (ascii ''Vake'')] =
      Inr (PFloat (Fin 2000))"
    by (simp add: clean_row_def example_env_def value_eval text_eval Let_def)
  have b: "clean_row example_env
      [''area_m2'' \<mapsto> PFloat (Fin (131 / 2)), ''price'' \<mapsto> PInt 500,
       ''price_per_sqm'' \<mapsto> PFloat NaN, ''upload_date'' \<mapsto> PStr date_two_tokens,
       ''description'' \<mapsto> PFloat NaN, ''district_name'' \<mapsto> PFloat NaN] =
      Inr (PInt 7)"
    by (simp add: clean_row_def example_env_def value_eval floor_numeral_div)
  show ?thesis
    by (simp add: clean_price_per_sqm_def listing_rows a b convert_result_def is_number_def
        listing3_def)
qed


lemma listing_upload_date: "transform_upload_date example_env listing3 = Inr listing4"
proof -
  have c: "columns listing3 ''upload_date'' = Some [PStr date_ok, PStr date_two_tokens]"
    by (simp add: listing3_def listing2_def listing1_def listing_def columns_set_column)
  have y: "1 \<le> now_year example_env" "now_year example_env \<le> 9999"
    by (simp_all add: example_env_def)
  have t: "py_split date_ok = [ascii ''15'', [4315, 4304, 4320], ascii ''14:30'']"
    by (simp add: date_ok_def split_eval)
  have g: "geo_months (take 3 [4315, 4304, 4320]) = Some 3"
    by (simp add: geo_months_def)
  have a: "parse_date example_env date_ok =
     PDatetime \<lparr>dt_year = 2026, dt_month = 3, dt_day = 15, dt_hour = 14, dt_minute = 30\<rparr>"
    by (simp add: parse_date_tokens [OF y t g] int_eval days_in_month_def)
       (simp add: example_env_def)
  have b: "parse_date example_env date_two_tokens = PNone"
    by (rule parse_date_not_three) (simp add: date_two_tokens_def split_eval)
  show ?thesis
    by (simp add: transform_upload_date_def get_column_def c Let_def columns_set_column
        set_column_twice py_str_def a b listing4_def)
qed

lemma listing_transaction_type: "new_transaction_type_col listing4 = Inr listing5"
proof -
  have c: "columns listing4 ''description'' = Some [PStr daily_flat, PFloat NaN]"
    by (simp add: listing4_def listing3_def listing2_def listing1_def listing_def
        columns_set_column)
  have a: "extract_transaction_type (PStr daily_flat) = PStr rent_daily"
    by (simp add: extract_text) (simp add: daily_flat_def rent_daily_def for_sale_def pledge_def)
  have b: "extract_transaction_type (PFloat NaN) = PNone"
    by (simp add: extract_transaction_type_def)
  show ?thesis
    by (simp add: new_transaction_type_col_def get_column_def c a b listing5_def)
qed

lemma listing_district: "fill_district_name_nulls listing5 = Inr listing_cleaned"
proof -
  have c: "columns listing5 ''district_name'' = Some [PStr (ascii ''Vake''), PFloat NaN]"
    by (simp add: listing5_def listing4_def listing3_def listing2_def listing1_def listing_def
        columns_set_column)
  show ?thesis
    by (simp add: fill_district_name_nulls_def get_column_def c fillna_def is_na_def
        listing_cleaned_def)
qed

lemma listing_main: "main example_env listing = Inr listing_cleaned"
  by (simp add: main_def listing_price listing_area listing_price_per_sqm listing_upload_date
      listing_transaction_type listing_district)

lemma wf_listing: "wf_df listing"
  by (simp add: wf_df_def listing_def)

lemma area_step_returns:
  "columns df ''area_m2'' \<noteq> None \<Longrightarrow> \<exists>d. clean_area_m2 E df = Inr d"
  by (auto simp: clean_area_m2_run)

lemma upload_date_step_returns:
  "columns df ''upload_date'' \<noteq> None \<Longrightarrow> \<exists>d. transform_upload_date E df = Inr d"
  by (auto simp: transform_upload_date_def get_column_def columns_set_column Let_def)

lemma transaction_type_step_returns:
  "columns df ''description'' \<noteq> None \<Longrightarrow> \<exists>d. new_transaction_type_col df = Inr d"
  by (auto simp: new_transaction_type_col_def get_column_def)

lemma district_step_returns:
  "columns df ''district_name'' \<noteq> None \<Longrightarrow> \<exists>d. fill_district_name_nulls df = Inr d"
  by (auto simp: fill_district_name_nulls_def get_column_def)

text \<open>
  C9. Whenever a step returns a table, that table has the rows of its input: the same
  number of rows, columns of that length, and every column but the step's own unchanged,
  value by value. Four steps write a column that is there already, the price-per-area
  step writes \<open>price_per_sqm\<close>, and the transaction-type step writes the column
  \<open>transaction_type\<close>; so a run of \<open>main\<close> on a table that has \<open>price_per_sqm\<close> ends with
  the columns of its input and \<open>transaction_type\<close>. The area, upload-date,
  transaction-type and district steps always return when their column is there.
\<close>

theorem pipeline_keeps_rows:
  "(clean_and_transform_price E df = Inr df' \<longrightarrow>
      same_but {''price''} df df' \<and> dom (columns df') = dom (columns df)) \<and>
   (clean_area_m2 E df = Inr df' \<longrightarrow>
      same_but {''area_m2''} df df' \<and> dom (columns df') = dom (columns df)) \<and>
   (clean_price_per_sqm E df = Inr df' \<longrightarrow>
      same_but {''price_per_sqm''} df df' \<and>
      dom (columns df') = insert ''price_per_sqm'' (dom (columns df))) \<and>
   (transform_upload_date E df = Inr df' \<longrightarrow>
      same_but {''upload_date''} df df' \<and> dom (columns df') = dom (columns df)) \<and>
   (new_transaction_type_col df = Inr df' \<longrightarrow>
      same_but {''transaction_type''} df df' \<and>
      dom (columns df') = insert ''transaction_type'' (dom (columns df))) \<and>
   (fill_district_name_nulls df = Inr df' \<longrightarrow>
      same_but {''district_name''} df df' \<and> dom (columns df') = dom (columns df)) \<and>
   (main E df = Inr df' \<longrightarrow>
      same_but {''price'', ''area_m2'', ''price_per_sqm'', ''upload_date'',
                ''transaction_type'', ''district_name''} df df' \<and>
      dom (columns df') =
        insert ''transaction_type'' (insert ''price_per_sqm'' (dom (columns df)))) \<and>
   (columns df ''area_m2'' \<noteq> None \<longrightarrow> (\<exists>d. clean_area_m2 E df = Inr d)) \<and>
   (columns df ''upload_date'' \<noteq> None \<longrightarrow> (\<exists>d. transform_upload_date E df = Inr d)) \<and>
   (columns df ''description'' \<noteq> None \<longrightarrow> (\<exists>d. new_transaction_type_col df = Inr d)) \<and>
   (columns df ''district_name'' \<noteq> None \<longrightarrow> (\<exists>d. fill_district_name_nulls df = Inr d))"
proof -
  have c1: "clean_and_transform_price E df = Inr df' \<longrightarrow>
      same_but {''price''} df df' \<and> dom (columns df') = dom (columns df)"
    by (rule impI) (rule price_step)
  have c2: "clean_area_m2 E df = Inr df' \<longrightarrow>
      same_but {''area_m2''} df df' \<and> dom (columns df') = dom (columns df)"
    by (rule impI) (rule area_step)
  have c3: "clean_price_per_sqm E df = Inr df' \<longrightarrow>
      same_but {''price_per_sqm''} df df' \<and>
      dom (columns df') = insert ''price_per_sqm'' (dom (columns df))"
    by (rule impI) (rule price_per_sqm_step)
  have c4: "transform_upload_date E df = Inr df' \<longrightarrow>
      same_but {''upload_date''} df df' \<and> dom (columns df') = dom (columns df)"
    by (rule impI) (rule upload_date_step)
  have c5: "new_transaction_type_col df = Inr df' \<longrightarrow>
      same_but {''transaction_type''} df df' \<and>
      dom (columns df') = insert ''transaction_type'' (dom (columns df))"
    by (rule impI) (rule transaction_type_step)
  have c6: "fill_district_name_nulls df = Inr df' \<longrightarrow>
      same_but {''district_name''} df df' \<and> dom (columns df') = dom (columns df)"
    by (rule impI) (rule district_step)
  have c7: "main E df = Inr df' \<longrightarrow>
      same_but {''price'', ''area_m2'', ''price_per_sqm'', ''upload_date'',
                ''transaction_type'', ''district_name''} df df' \<and>
      dom (columns df') =
        insert ''transaction_type'' (insert ''price_per_sqm'' (dom (columns df)))"
  proof
    assume m: "main E df = Inr df'"
    from m obtain df1 where s1: "clean_and_transform_price E df = Inr df1"
      and m1: "ebind (clean_area_m2 E df1) (\<lambda>df2.
         ebind (clean_price_per_sqm E df2) (\<lambda>df3.
           ebind (transform_upload_date E df3) (\<lambda>df4.
             ebind (new_transaction_type_col df4) (\<lambda>df5.
               fill_district_name_nulls df5)))) = Inr df'"
      unfolding main_def by (cases "clean_and_transform_price E df") simp_all
    from m1 obtain df2 where s2: "clean_area_m2 E df1 = Inr df2"
      and m2: "ebind (clean_price_per_sqm E df2) (\<lambda>df3.
           ebind (transform_upload_date E df3) (\<lambda>df4.
             ebind (new_transaction_type_col df4) (\<lambda>df5.
               fill_district_name_nulls df5))) = Inr df'"
      by (cases "clean_area_m2 E df1") simp_all
    from m2 obtain df3 where s3: "clean_price_per_sqm E df2 = Inr df3"
      and m3: "ebind (transform_upload_date E df3) (\<lambda>df4.
             ebind (new_transaction_type_col df4) (\<lambda>df5.
               fill_district_name_nulls df5)) = Inr df'"
      by (cases "clean_price_per_sqm E df2") simp_all
    from m3 obtain df4 where s4: "transform_upload_date E df3 = Inr df4"
      and m4: "ebind (new_transaction_type_col df4) (\<lambda>df5.
               fill_district_name_nulls df5) = Inr df'"
      by (cases "transform_upload_date E df3") simp_all
    from m4 obtain df5 where s5: "new_transaction_type_col df4 = Inr df5"
      and s6: "fill_district_name_nulls df5 = Inr df'"
      by (cases "new_transaction_type_col df4") simp_all
    note p1 = price_step [OF s1] and p2 = area_step [OF s2]
      and p3 = price_per_sqm_step [OF s3] and p4 = upload_date_step [OF s4]
      and p5 = transaction_type_step [OF s5] and p6 = district_step [OF s6]
    note t2 = same_but_trans [OF p1 [THEN conjunct1] p2 [THEN conjunct1]]
    note t3 = same_but_trans [OF t2 p3 [THEN conjunct1]]
    note t4 = same_but_trans [OF t3 p4 [THEN conjunct1]]
    note t5 = same_but_trans [OF t4 p5 [THEN conjunct1]]
    note t6 = same_but_trans [OF t5 p6 [THEN conjunct1]]
    have e: "{''price''} \<union> {''area_m2''} \<union> {''price_per_sqm''} \<union> {''upload_date''} \<union>
        {''transaction_type''} \<union> {''district_name''} =
        {''price'', ''area_m2'', ''price_per_sqm'', ''upload_date'', ''transaction_type'',
         ''district_name''}"
      by (simp only: Un_insert_left Un_empty_left)
    from t6 have a: "same_but {''price'', ''area_m2'', ''price_per_sqm'', ''upload_date'',
                ''transaction_type'', ''district_name''} df df'"
      by (simp only: e)
    have b: "dom (columns df') =
        insert ''transaction_type'' (insert ''price_per_sqm'' (dom (columns df)))"
      by (simp only: p6 [THEN conjunct2] p5 [THEN conjunct2] p4 [THEN conjunct2]
          p3 [THEN conjunct2] p2 [THEN conjunct2] p1 [THEN conjunct2])
    from a b show "same_but {''price'', ''area_m2'', ''price_per_sqm'', ''upload_date'',
                ''transaction_type'', ''district_name''} df df' \<and>
      dom (columns df') =
        insert ''transaction_type'' (insert ''price_per_sqm'' (dom (columns df)))"
      by (rule conjI)
  qed
  have r2: "columns df ''area_m2'' \<noteq> None \<longrightarrow> (\<exists>d. clean_area_m2 E df = Inr d)"
    by (rule impI) (rule area_step_returns)
  have r4: "columns df ''upload_date'' \<noteq> None \<longrightarrow> (\<exists>d. transform_upload_date E df = Inr d)"
    by (rule impI) (rule upload_date_step_returns)
  have r5: "columns df ''description'' \<noteq> None \<longrightarrow> (\<exists>d. new_transaction_type_col df = Inr d)"
    by (rule impI) (rule transaction_type_step_returns)
  have r6: "columns df ''district_name'' \<noteq> None \<longrightarrow> (\<exists>d. fill_district_name_nulls df = Inr d)"
    by (rule impI) (rule district_step_returns)
  show ?thesis
    by (intro conjI c1 c2 c3 c4 c5 c6 c7 r2 r4 r5 r6)
qed

theorem pipeline_keeps_rows_witness:
  "wf_df listing \<and> nrows listing = 2 \<and> main example_env listing = Inr listing_cleaned \<and>
   nrows listing_cleaned = 2 \<and> wf_df listing_cleaned \<and>
   columns listing_cleaned ''description'' = columns listing ''description'' \<and>
   dom (columns listing_cleaned) = insert ''transaction_type'' (dom (columns listing))"
proof -
  have n: "nrows listing = 2"
    by (simp add: listing_def)
  have d: "''description'' \<notin> {''price'', ''area_m2'', ''price_per_sqm'', ''upload_date'',
                ''transaction_type'', ''district_name''}"
    by simp
  note th = pipeline_keeps_rows [of example_env listing listing_cleaned,
      THEN conjunct2, THEN conjunct2, THEN conjunct2, THEN conjunct2, THEN conjunct2,
      THEN conjunct2, THEN conjunct1, THEN mp, OF listing_main]
  from th [THEN conjunct1] have sb: "nrows listing_cleaned = nrows listing"
    "wf_df listing \<longrightarrow> wf_df listing_cleaned"
    "\<forall>c. c \<notin> {''price'', ''area_m2'', ''price_per_sqm'', ''upload_date'',
                ''transaction_type'', ''district_name''} \<longrightarrow>
       columns listing_cleaned c = columns listing c"
    unfolding same_but_def by (rule conjunct1, rule conjunct2 [THEN conjunct1], rule conjunct2 [THEN conjunct2])
  from sb(1) n have n': "nrows listing_cleaned = 2"
    by simp
  from sb(2) wf_listing have w': "wf_df listing_cleaned"
    by (rule mp)
  from d have c': "columns listing_cleaned ''description'' = columns listing ''description''"
    by (rule sb(3) [rule_format])
  have "''price_per_sqm'' \<in> dom (columns listing)"
    by (simp add: listing_def)
  with th [THEN conjunct2]
  have d': "dom (columns listing_cleaned) = insert ''transaction_type'' (dom (columns listing))"
    by (simp only: insert_absorb)
  from wf_listing n listing_main n' w' c' d' show ?thesis by (intro conjI)
qed

end
